theory Spec2Isabelle
  imports Main "HOL-Library.Word" "HOL-Library.List_Lexorder"
begin

section \<open>JavaScript values\<close>

text \<open>
  A JavaScript string is a sequence of 16-bit code units. The default order of
  \<^verbatim>\<open>Array.prototype.sort\<close> and string equality both work on code units, so
  the lexicographic order on lists of words is the order of the program.
\<close>

type_synonym jsstring = "16 word list"

definition str :: "string \<Rightarrow> jsstring" where
  "str s = map of_char s"

text \<open>
  The values \<^verbatim>\<open>JSON.parse\<close> can return, and \<^verbatim>\<open>undefined\<close>. A number is
  an IEEE double, kept as its 64 bits: the script never computes with one.
\<close>

datatype jsval =
    JUndefined
  | JNull
  | JBool bool
  | JNum "64 word"
  | JStr jsstring
  | JArr "jsval list"
  | JObj "(jsstring \<times> jsval) list"

datatype js_error = TypeError | SyntaxError | SystemError string | YAMLException

text \<open>
  Reading a property of a value: \<^verbatim>\<open>undefined\<close> and \<^verbatim>\<open>null\<close> throw a
  TypeError, an object gives its own property (\<^verbatim>\<open>JSON.parse\<close> keeps each key
  once), every other value gives \<^verbatim>\<open>undefined\<close>. The script reads only
  \<^verbatim>\<open>id\<close> and \<^verbatim>\<open>blocked_services\<close>, which no prototype defines.
\<close>

fun get_prop :: "jsval \<Rightarrow> jsstring \<Rightarrow> js_error + jsval" where
  "get_prop JUndefined k = Inl TypeError"
| "get_prop JNull k = Inl TypeError"
| "get_prop (JObj kvs) k = Inr (case map_of kvs k of None \<Rightarrow> JUndefined | Some v \<Rightarrow> v)"
| "get_prop v k = Inr JUndefined"

text \<open>\<^verbatim>\<open>xs.map(f)\<close> with a callback that may throw: the first throw ends the map.\<close>

fun map_throwing :: "('a \<Rightarrow> js_error + 'b) \<Rightarrow> 'a list \<Rightarrow> js_error + 'b list" where
  "map_throwing f [] = Inr []"
| "map_throwing f (x # xs) =
     (case f x of
        Inl e \<Rightarrow> Inl e
      | Inr y \<Rightarrow> (case map_throwing f xs of Inl e \<Rightarrow> Inl e | Inr ys \<Rightarrow> Inr (y # ys)))"

section \<open>normalizeFileName\<close>

text \<open>
  \<^verbatim>\<open>String.prototype.toLowerCase\<close>. The capital letters A to Z move to a to z.
  Two code units outside ASCII have a lower case that contains an ASCII letter:
  U+0130 becomes i followed by U+0307, and the Kelvin sign U+212A becomes k.
  Every other code unit outside ASCII is mapped by ECMAScript to code units
  outside ASCII; here it is kept as it is.
\<close>

definition lower_unit :: "16 word \<Rightarrow> jsstring" where
  "lower_unit c =
     (if 0x41 \<le> c \<and> c \<le> 0x5A then [c + 0x20]
      else if c = 0x130 then [0x69, 0x307]
      else if c = 0x212A then [0x6B]
      else [c])"

definition toLowerCase :: "jsstring \<Rightarrow> jsstring" where
  "toLowerCase s = concat (map lower_unit s)"

text \<open>The character class \<^verbatim>\<open>[a-z0-9.]\<close>.\<close>

definition in_az09dot :: "16 word \<Rightarrow> bool" where
  "in_az09dot c \<longleftrightarrow> (0x61 \<le> c \<and> c \<le> 0x7A) \<or> (0x30 \<le> c \<and> c \<le> 0x39) \<or> c = 0x2E"

text \<open>\<^verbatim>\<open>s.replace(/[^a-z0-9.]/g, '')\<close>.\<close>

definition replace_specificCharacters :: "jsstring \<Rightarrow> jsstring" where
  "replace_specificCharacters s = filter in_az09dot s"

text \<open>
  Calling \<^verbatim>\<open>serviceName.toLowerCase()\<close>: on \<^verbatim>\<open>undefined\<close> and \<^verbatim>\<open>null\<close>
  the property read throws, on any other value that is not a string the property
  is \<^verbatim>\<open>undefined\<close> (or, on an object, a JSON value) and the call throws; a
  TypeError each time.
\<close>

definition call_toLowerCase :: "jsval \<Rightarrow> js_error + jsstring" where
  "call_toLowerCase v = (case v of JStr s \<Rightarrow> Inr (toLowerCase s) | _ \<Rightarrow> Inl TypeError)"

definition normalizeFileName :: "jsval \<Rightarrow> js_error + jsstring" where
  "normalizeFileName serviceName =
     (case call_toLowerCase serviceName of
        Inl e \<Rightarrow> Inl e
      | Inr lowerCased \<Rightarrow> Inr (replace_specificCharacters lowerCased))"

section \<open>Node's path module (POSIX)\<close>

text \<open>\<^verbatim>\<open>Array.prototype.join\<close> on strings.\<close>

fun join :: "jsstring \<Rightarrow> jsstring list \<Rightarrow> jsstring" where
  "join sep [] = []"
| "join sep [x] = x"
| "join sep (x # y # ys) = x @ sep @ join sep (y # ys)"

fun split_slash :: "jsstring \<Rightarrow> jsstring list" where
  "split_slash [] = [[]]"
| "split_slash (c # cs) =
     (if c = 0x2F then [] # split_slash cs
      else (case split_slash cs of [] \<Rightarrow> [[c]] | seg # segs \<Rightarrow> (c # seg) # segs))"

text \<open>
  \<^verbatim>\<open>normalizeString(path, allowAboveRoot)\<close> of Node's path module, segment by
  segment: an empty segment and \<^verbatim>\<open>.\<close> are dropped, \<^verbatim>\<open>..\<close> removes the segment
  before it, or is kept when there is none to remove and \<open>allowAboveRoot\<close> holds.
  The accumulator holds the segments kept so far, last one first.
\<close>

fun normalize_segments :: "bool \<Rightarrow> jsstring list \<Rightarrow> jsstring list \<Rightarrow> jsstring list" where
  "normalize_segments allowAboveRoot acc [] = rev acc"
| "normalize_segments allowAboveRoot acc (seg # segs) =
     (if seg = [] \<or> seg = str ''.'' then normalize_segments allowAboveRoot acc segs
      else if seg = str ''..'' then
        (case acc of
           [] \<Rightarrow> normalize_segments allowAboveRoot (if allowAboveRoot then [seg] else []) segs
         | lastSeg # below \<Rightarrow>
             if lastSeg = str ''..''
             then normalize_segments allowAboveRoot (if allowAboveRoot then seg # acc else acc) segs
             else normalize_segments allowAboveRoot below segs)
      else normalize_segments allowAboveRoot (seg # acc) segs)"

definition normalizeString :: "jsstring \<Rightarrow> bool \<Rightarrow> jsstring" where
  "normalizeString path allowAboveRoot =
     join (str ''/'') (normalize_segments allowAboveRoot [] (split_slash path))"

definition path_normalize :: "jsstring \<Rightarrow> jsstring" where
  "path_normalize path =
     (if path = [] then str ''.''
      else
        let isAbsolute = (hd path = 0x2F);
            trailingSeparator = (last path = 0x2F);
            p = normalizeString path (\<not> isAbsolute)
        in if p = [] then (if isAbsolute then str ''/'' else if trailingSeparator then str ''./'' else str ''.'')
           else (if isAbsolute then str ''/'' else []) @ p @ (if trailingSeparator then str ''/'' else []))"

text \<open>\<^verbatim>\<open>path.join(arg)\<close> with its one argument.\<close>

definition path_join :: "jsstring \<Rightarrow> jsstring" where
  "path_join arg = (if arg = [] then str ''.'' else path_normalize arg)"

text \<open>
  \<^verbatim>\<open>path.resolve(from, to)\<close> for an absolute first and a relative, non-empty
  second argument: the case of \<^verbatim>\<open>path.resolve(__dirname, '../../services/')\<close>, since Node
  makes \<^verbatim>\<open>__dirname\<close> absolute.
\<close>

definition path_resolve :: "jsstring \<Rightarrow> jsstring \<Rightarrow> jsstring" where
  "path_resolve fromPath toPath =
     str ''/'' @ normalizeString (fromPath @ str ''/'' @ toPath @ str ''/'') False"

text \<open>
  \<^verbatim>\<open>path.parse(path).name\<close>. The loop of Node's \<^verbatim>\<open>posix.parse\<close> runs from the
  last code unit down to \<open>start\<close>; the second argument of \<open>parse_loop\<close> is
  \<open>start\<close>, the third is \<open>i + 1\<close>.
\<close>

record parse_state =
  startDot :: int
  startPart :: int
  endIdx :: int
  matchedSlash :: bool
  preDotState :: int

fun parse_loop :: "jsstring \<Rightarrow> nat \<Rightarrow> nat \<Rightarrow> parse_state \<Rightarrow> parse_state" where
  "parse_loop path start 0 st = st"
| "parse_loop path start (Suc i) st =
     (if i < start then st
      else if path ! i = 0x2F then
        (if \<not> matchedSlash st then st\<lparr>startPart := int i + 1\<rparr>
         else parse_loop path start i st)
      else
        (let st1 = (if endIdx st = - 1 then st\<lparr>endIdx := int i + 1, matchedSlash := False\<rparr> else st);
             st2 = (if path ! i = 0x2E then
                      (if startDot st1 = - 1 then st1\<lparr>startDot := int i\<rparr>
                       else if preDotState st1 \<noteq> 1 then st1\<lparr>preDotState := 1\<rparr>
                       else st1)
                    else if startDot st1 \<noteq> - 1 then st1\<lparr>preDotState := - 1\<rparr>
                    else st1)
         in parse_loop path start i st2))"

definition slice :: "jsstring \<Rightarrow> int \<Rightarrow> int \<Rightarrow> jsstring" where
  "slice s a b = take (nat b - nat a) (drop (nat a) s)"

definition parse_name :: "jsstring \<Rightarrow> jsstring" where
  "parse_name path =
     (if path = [] then []
      else
        let isAbsolute = (hd path = 0x2F);
            st = parse_loop path (if isAbsolute then 1 else 0) (length path)
                   \<lparr>startDot = - 1, startPart = 0, endIdx = - 1, matchedSlash = True, preDotState = 0\<rparr>
        in if endIdx st \<noteq> - 1 then
             (let start = (if startPart st = 0 \<and> isAbsolute then 1 else startPart st)
              in if startDot st = - 1 \<or> preDotState st = 0
                    \<or> (preDotState st = 1 \<and> startDot st = endIdx st - 1 \<and> startDot st = startPart st + 1)
                 then slice path start (endIdx st)
                 else slice path start (startDot st))
           else [])"

section \<open>The world outside the script\<close>

text \<open>
  What the run reads from outside is a parameter: the location of the script
  (\<^verbatim>\<open>__dirname\<close>), the results of \<^verbatim>\<open>fs.readFile\<close>, \<^verbatim>\<open>JSON.parse\<close>
  (on the bytes read), \<^verbatim>\<open>fs.readdir\<close> and \<^verbatim>\<open>yaml.dump\<close> (with its
  \<^verbatim>\<open>lineWidth\<close> option), the outcome of each \<^verbatim>\<open>fs.writeFile\<close> (which may
  depend on the calls made before it), and ECMAScript's ToString on a value that is
  not a string. All reads of a run come before its first write.
\<close>

type_synonym writeFile_call = "jsstring \<times> jsstring \<times> js_error option"

record env =
  dirname :: jsstring
  readFile :: "jsstring \<Rightarrow> js_error + 8 word list"
  JSON_parse :: "8 word list \<Rightarrow> js_error + jsval"
  readdir :: "jsstring \<Rightarrow> js_error + jsstring list"
  yaml_dump :: "int \<Rightarrow> jsval \<Rightarrow> js_error + jsstring"
  writeFile :: "writeFile_call list \<Rightarrow> jsstring \<Rightarrow> jsstring \<Rightarrow> js_error option"
  ToString :: "jsval \<Rightarrow> js_error + jsstring"

text \<open>
  What the run does to the outside: the calls of \<^verbatim>\<open>fs.writeFile\<close> in order,
  each with its path, its data and its outcome (\<open>None\<close> when the file was
  written), and the lines sent to the console.
\<close>

datatype console_line = ConsoleError jsstring js_error | ConsoleLog jsstring

record world =
  writeFile_calls :: "writeFile_call list"
  console :: "console_line list"

section \<open>The script\<close>

definition YML_FILE_EXTENSION :: jsstring where
  "YML_FILE_EXTENSION = str ''.yml''"

definition servicesDir :: "env \<Rightarrow> jsstring" where
  "servicesDir env = path_resolve (dirname env) (str ''../../services/'')"

definition getJsonObjects :: "env \<Rightarrow> jsstring \<Rightarrow> world \<Rightarrow> jsval \<times> world" where
  "getJsonObjects env jsonFilePath w =
     (case (case readFile env jsonFilePath of
              Inl e \<Rightarrow> Inl e
            | Inr jsonFileContent \<Rightarrow>
                (case JSON_parse env jsonFileContent of
                   Inl e \<Rightarrow> Inl e
                 | Inr jsonObjects \<Rightarrow> get_prop jsonObjects (str ''blocked_services''))) of
        Inl error \<Rightarrow>
          (JNull, w\<lparr>console := console w @ [ConsoleError (str ''Error while reading JSON file:'') error]\<rparr>)
      | Inr blocked_services \<Rightarrow> (blocked_services, w))"

definition getJsonObjectNames :: "jsval list \<Rightarrow> js_error + jsstring list" where
  "getJsonObjectNames jsonData =
     (case map_throwing (\<lambda>service. get_prop service (str ''id'')) jsonData of
        Inl e \<Rightarrow> Inl e
      | Inr jsonServicesId \<Rightarrow>
          (case map_throwing normalizeFileName jsonServicesId of
             Inl e \<Rightarrow> Inl e
           | Inr formattedServicesId \<Rightarrow> Inr (sort formattedServicesId)))"

definition getYmlFileNames :: "env \<Rightarrow> jsstring \<Rightarrow> js_error + jsstring list" where
  "getYmlFileNames env servicesFolderPath =
     (case readdir env servicesFolderPath of
        Inl e \<Rightarrow> Inl e
      | Inr ymlFiles \<Rightarrow>
          (let ymlFileNames = map (\<lambda>ymlFile. parse_name ymlFile) ymlFiles
           in case map_throwing normalizeFileName (map JStr ymlFileNames) of
                Inl e \<Rightarrow> Inl e
              | Inr formattedServiceNames \<Rightarrow> Inr (sort formattedServiceNames)))"

text \<open>The template literal \<^verbatim>\<open>${removedObject.id}\<close>.\<close>

definition template_value :: "env \<Rightarrow> jsval \<Rightarrow> js_error + jsstring" where
  "template_value env v = (case v of JStr s \<Rightarrow> Inr s | _ \<Rightarrow> ToString env v)"

text \<open>
  The arguments of \<^verbatim>\<open>fs.writeFile\<close> are evaluated left to right, the path
  first; a throw in either of them, or a failed write, ends the recursion.
\<close>

fun writeRemovedServices :: "env \<Rightarrow> jsval list \<Rightarrow> world \<Rightarrow> (js_error + unit) \<times> world" where
  "writeRemovedServices env [] w = (Inr (), w)"
| "writeRemovedServices env (removedObject # restObjects) w =
     (case get_prop removedObject (str ''id'') of
        Inl e \<Rightarrow> (Inl e, w)
      | Inr idv \<Rightarrow>
          (case template_value env idv of
             Inl e \<Rightarrow> (Inl e, w)
           | Inr ids \<Rightarrow>
               (let file = path_join (servicesDir env @ str ''/'' @ ids @ YML_FILE_EXTENSION)
                in case yaml_dump env (- 1) removedObject of
                     Inl e \<Rightarrow> (Inl e, w)
                   | Inr data \<Rightarrow>
                       (case writeFile env (writeFile_calls w) file data of
                          Some e \<Rightarrow>
                            (Inl e, w\<lparr>writeFile_calls := writeFile_calls w @ [(file, data, Some e)]\<rparr>)
                        | None \<Rightarrow>
                            (let w' = w\<lparr>writeFile_calls := writeFile_calls w @ [(file, data, None)]\<rparr>
                             in if length (removedObject # restObjects) > 1
                                then writeRemovedServices env restObjects w'
                                else (Inr (), w'))))))"

text \<open>
  \<^verbatim>\<open>xs.find(p)\<close> with a callback that may throw; \<^verbatim>\<open>undefined\<close> when no
  element satisfies it.
\<close>

fun find_throwing :: "(jsval \<Rightarrow> js_error + bool) \<Rightarrow> jsval list \<Rightarrow> js_error + jsval" where
  "find_throwing p [] = Inr JUndefined"
| "find_throwing p (x # xs) =
     (case p x of
        Inl e \<Rightarrow> Inl e
      | Inr b \<Rightarrow> if b then Inr x else find_throwing p xs)"

text \<open>The callback \<^verbatim>\<open>({ id }) => normalizeFileName(id) === removedServiceName\<close>.\<close>

definition id_matches :: "jsstring \<Rightarrow> jsval \<Rightarrow> js_error + bool" where
  "id_matches removedServiceName service =
     (case get_prop service (str ''id'') of
        Inl e \<Rightarrow> Inl e
      | Inr idv \<Rightarrow>
          (case normalizeFileName idv of
             Inl e \<Rightarrow> Inl e
           | Inr n \<Rightarrow> Inr (n = removedServiceName)))"

text \<open>The local constant \<^verbatim>\<open>removedServicesObjects\<close> of \<^verbatim>\<open>rewriteYMLFile\<close>.\<close>

definition removedServicesObjects :: "jsstring list \<Rightarrow> jsval list \<Rightarrow> js_error + jsval list" where
  "removedServicesObjects removedServicesNames jsonServicesData =
     map_throwing
       (\<lambda>removedServiceName. find_throwing (id_matches removedServiceName) jsonServicesData)
       removedServicesNames"

definition rewriteYMLFile :: "env \<Rightarrow> jsstring list \<Rightarrow> jsval list \<Rightarrow> world \<Rightarrow> (js_error + unit) \<times> world" where
  "rewriteYMLFile env removedServicesNames jsonServicesData w =
     (case (case removedServicesObjects removedServicesNames jsonServicesData of
              Inl e \<Rightarrow> (Inl e, w)
            | Inr objs \<Rightarrow> writeRemovedServices env objs w) of
        (Inl error, w') \<Rightarrow>
          (Inr (), w'\<lparr>console := console w' @ [ConsoleError (str ''Error while rewriting file:'') error]\<rparr>)
      | (Inr u, w') \<Rightarrow> (Inr (), w'))"

text \<open>\<^verbatim>\<open>Array.prototype.includes\<close> on strings.\<close>

definition array_includes :: "jsstring list \<Rightarrow> jsstring \<Rightarrow> bool" where
  "array_includes xs x \<longleftrightarrow> x \<in> set xs"

text \<open>The local constant \<^verbatim>\<open>differences\<close> of \<^verbatim>\<open>checkRemovedServices\<close>.\<close>

definition differences :: "jsstring list \<Rightarrow> jsstring list \<Rightarrow> jsstring list" where
  "differences ymlFileNames jsonObjectNames =
     filter (\<lambda>name. \<not> array_includes ymlFileNames name) jsonObjectNames"

definition summary :: "jsstring list \<Rightarrow> jsstring" where
  "summary ds =
     str ''These services have been removed: '' @ join (str '', '') ds @ str '', and were rewritten''"

definition checkRemovedServices ::
  "env \<Rightarrow> jsstring \<Rightarrow> jsstring \<Rightarrow> world \<Rightarrow> (js_error + unit) \<times> world" where
  "checkRemovedServices env servicesFolderPath jsonFilePath w =
     (case getJsonObjects env jsonFilePath w of
        (JArr jsonDataObjects, w1) \<Rightarrow>
          (case getYmlFileNames env servicesFolderPath of
             Inl e \<Rightarrow> (Inl e, w1)
           | Inr ymlFileNames \<Rightarrow>
               (case getJsonObjectNames jsonDataObjects of
                  Inl e \<Rightarrow> (Inl e, w1)
                | Inr jsonObjectNames \<Rightarrow>
                    (let ds = differences ymlFileNames jsonObjectNames
                     in if length ds > 0 then
                          (case rewriteYMLFile env ds jsonDataObjects w1 of
                             (Inl e, w2) \<Rightarrow> (Inl e, w2)
                           | (Inr u, w2) \<Rightarrow>
                               (Inr (), w2\<lparr>console := console w2 @ [ConsoleLog (summary ds)]\<rparr>))
                        else (Inr (), w1))))
      | (other, w1) \<Rightarrow> (Inr (), w1))"

section \<open>The data model, and environments for the examples\<close>

text \<open>
  An entity record always has an \<^verbatim>\<open>id\<close> that is a string: \<open>record_id\<close> is that
  string, and \<open>None\<close> on a value without one.
\<close>

definition record_id :: "jsval \<Rightarrow> jsstring option" where
  "record_id r = (case get_prop r (str ''id'') of Inr (JStr i) \<Rightarrow> Some i | _ \<Rightarrow> None)"

definition service :: "string \<Rightarrow> jsval" where
  "service i = JObj [(str ''id'', JStr (str i))]"

definition legacy_document :: "jsval list \<Rightarrow> jsval" where
  "legacy_document records = JObj [(str ''blocked_services'', JArr records)]"

definition empty_world :: world where
  "empty_world = \<lparr>writeFile_calls = [], console = []\<rparr>"

text \<open>
  A stand-in for \<^verbatim>\<open>yaml.dump\<close> on the records of the examples: one
  \<^verbatim>\<open>key: value\<close> line for each field, the empty string written as two
  apostrophes.
\<close>

definition example_dump :: "int \<Rightarrow> jsval \<Rightarrow> js_error + jsstring" where
  "example_dump lineWidth v =
     (case v of
        JObj kvs \<Rightarrow>
          Inr (concat (map (\<lambda>(k, x). k @ str '': '' @ (case x of JStr s \<Rightarrow> if s = [] then [0x27, 0x27] else s | _ \<Rightarrow> str ''~'') @ [0x0A]) kvs))
      | _ \<Rightarrow> Inl YAMLException)"

text \<open>
  The environment of the examples: the script lies in \<^verbatim>\<open>/repo/scripts/services\<close>,
  the legacy file \<^verbatim>\<open>/repo/assets/services.json\<close> holds \<open>content\<close>, which
  \<^verbatim>\<open>JSON.parse\<close> turns into \<open>parsed\<close>, the directories \<^verbatim>\<open>/repo/services\<close>
  and \<^verbatim>\<open>/data/services\<close> both list \<open>files\<close>, and no other file or directory
  exists. Every \<^verbatim>\<open>id\<close> of the examples is a string, so ToString is never reached.
\<close>

definition example_env ::
  "string \<Rightarrow> (js_error + jsval) \<Rightarrow> jsstring list
     \<Rightarrow> (writeFile_call list \<Rightarrow> jsstring \<Rightarrow> jsstring \<Rightarrow> js_error option) \<Rightarrow> env" where
  "example_env content parsed files writes =
     \<lparr>dirname = str ''/repo/scripts/services'',
      readFile = (\<lambda>p. if p = str ''/repo/assets/services.json'' then Inr (map of_char content)
                       else Inl (SystemError ''ENOENT'')),
      JSON_parse = (\<lambda>b. if b = map of_char content then parsed else Inl SyntaxError),
      readdir = (\<lambda>d. if d = str ''/repo/services'' \<or> d = str ''/data/services'' then Inr files
                      else Inl (SystemError ''ENOENT'')),
      yaml_dump = example_dump,
      writeFile = writes,
      ToString = (\<lambda>v. Inl TypeError)\<rparr>"

definition all_writes_succeed :: "writeFile_call list \<Rightarrow> jsstring \<Rightarrow> jsstring \<Rightarrow> js_error option" where
  "all_writes_succeed calls file data = None"

definition second_write_fails :: "writeFile_call list \<Rightarrow> jsstring \<Rightarrow> jsstring \<Rightarrow> js_error option" where
  "second_write_fails calls file data = (if length calls = 1 then Some (SystemError ''EACCES'') else None)"

text \<open>The legacy file of the spec's example, beside the one file \<^verbatim>\<open>other.yml\<close>.\<close>

definition env_example :: env where
  \<open>env_example =
     example_env ''{"blocked_services":[{"id":"Example.com"},{"id":"other"}]}''
       (Inr (legacy_document [service ''Example.com'', service ''other'']))
       [str ''other.yml''] all_writes_succeed\<close>

text \<open>Both records have their file.\<close>

definition env_complete :: env where
  \<open>env_complete =
     example_env ''{"blocked_services":[{"id":"Example.com"},{"id":"other"}]}''
       (Inr (legacy_document [service ''Example.com'', service ''other'']))
       [str ''other.yml'', str ''example.com.yml''] all_writes_succeed\<close>

text \<open>Two ids with one normalized key, and an empty directory.\<close>

definition env_collision :: env where
  \<open>env_collision =
     example_env ''{"blocked_services":[{"id":"A-B"},{"id":"ab"}]}''
       (Inr (legacy_document [service ''A-B'', service ''ab'']))
       [] all_writes_succeed\<close>

text \<open>A legacy file that is not JSON.\<close>

definition env_broken_json :: env where
  \<open>env_broken_json =
     example_env ''{"blocked_services":['' (Inl SyntaxError) [str ''other.yml''] all_writes_succeed\<close>

text \<open>A legacy file whose \<^verbatim>\<open>blocked_services\<close> is a string.\<close>

definition env_not_array :: env where
  \<open>env_not_array =
     example_env ''{"blocked_services":"none"}''
       (Inr (JObj [(str ''blocked_services'', JStr (str ''none''))]))
       [str ''other.yml''] all_writes_succeed\<close>

text \<open>Three missing records, and a directory that refuses the second write.\<close>

definition env_write_fails :: env where
  \<open>env_write_fails =
     example_env ''{"blocked_services":[{"id":"a"},{"id":"b"},{"id":"c"}]}''
       (Inr (legacy_document [service ''a'', service ''b'', service ''c'']))
       [] second_write_fails\<close>

text \<open>A record with the empty id, beside a file named \<^verbatim>\<open>.yml\<close>.\<close>

definition env_empty_id :: env where
  \<open>env_empty_id =
     example_env ''{"blocked_services":[{"id":""}]}''
       (Inr (legacy_document [service []]))
       [str ''.yml''] all_writes_succeed\<close>

text \<open>A record without an id.\<close>

definition env_no_id :: env where
  \<open>env_no_id =
     example_env ''{"blocked_services":[{"name":"x"}]}''
       (Inr (legacy_document [JObj [(str ''name'', JStr (str ''x''))]]))
       [str ''other.yml''] all_writes_succeed\<close>

section \<open>Properties of the normalizer\<close>

lemma lower_unit_fixed: "in_az09dot c \<Longrightarrow> lower_unit c = [c]"
  by (auto simp: in_az09dot_def lower_unit_def word_le_nat_alt)

lemma toLowerCase_fixed: "\<forall>c \<in> set s. in_az09dot c \<Longrightarrow> toLowerCase s = s"
  by (induction s) (simp_all add: toLowerCase_def lower_unit_fixed)

lemma normalizeFileName_JStr:
  "normalizeFileName (JStr s) = Inr (replace_specificCharacters (toLowerCase s))"
  by (simp add: normalizeFileName_def call_toLowerCase_def)

lemma normalizeFileName_Inr_iff:
  "normalizeFileName v = Inr t \<longleftrightarrow> (\<exists>s. v = JStr s \<and> t = replace_specificCharacters (toLowerCase s))"
  by (cases v) (auto simp: normalizeFileName_def call_toLowerCase_def)

lemma normalizeFileName_Inl_iff:
  "normalizeFileName v = Inl e \<longleftrightarrow> (e = TypeError \<and> (\<forall>s. v \<noteq> JStr s))"
  by (cases v) (auto simp: normalizeFileName_def call_toLowerCase_def)

lemma normalized_fixed:
  "replace_specificCharacters (toLowerCase (replace_specificCharacters s)) =
   replace_specificCharacters s"
proof -
  have "toLowerCase (replace_specificCharacters s) = replace_specificCharacters s"
    by (rule toLowerCase_fixed) (simp add: replace_specificCharacters_def)
  then show ?thesis
    by (simp add: replace_specificCharacters_def)
qed

section \<open>Maps that may throw, and the two key lists\<close>

lemma map_throwing_Inr_iff:
  "list_all2 (\<lambda>x y. f x = Inr y) xs ys \<longleftrightarrow> map_throwing f xs = Inr ys"
  by (induction xs arbitrary: ys) (auto simp: list_all2_Cons1 split: sum.splits)

lemma map_throwing_total:
  "map_throwing (\<lambda>x. Inr (g x)) xs = Inr (map g xs)"
  by (induction xs) simp_all

lemma map_throwing_cong_set:
  "(\<And>x. x \<in> set xs \<Longrightarrow> f x = g x) \<Longrightarrow> map_throwing f xs = map_throwing g xs"
  by (induction xs) (simp_all cong: sum.case_cong)

lemma map_throwing_map:
  "map_throwing f (map h xs) = map_throwing (\<lambda>x. f (h x)) xs"
  by (induction xs) (simp_all cong: sum.case_cong)

lemma map_throwing_Inl_TypeError:
  assumes "\<And>x e. f x = Inl e \<Longrightarrow> e = TypeError" and "map_throwing f xs = Inl e"
  shows "e = TypeError"
  using assms(2)
  by (induction xs) (auto split: sum.splits dest: assms(1))

lemma record_id_Some_iff:
  "record_id r = Some i \<longleftrightarrow> get_prop r (str ''id'') = Inr (JStr i)"
  by (auto simp: record_id_def split: sum.splits jsval.splits)

lemma get_prop_Inl: "get_prop v k = Inl e \<Longrightarrow> e = TypeError"
  by (cases v) auto

lemma getYmlFileNames_Inr:
  "readdir env d = Inr files \<Longrightarrow>
   getYmlFileNames env d =
     Inr (sort (map (\<lambda>f. replace_specificCharacters (toLowerCase (parse_name f))) files))"
  by (simp add: getYmlFileNames_def map_throwing_map normalizeFileName_JStr map_throwing_total
      comp_def)

lemma getJsonObjectNames_Inr:
  assumes "\<forall>r \<in> set recs. record_id r \<noteq> None"
  shows "getJsonObjectNames recs =
     Inr (sort (map (\<lambda>r. replace_specificCharacters (toLowerCase (the (record_id r)))) recs))"
proof -
  have ids: "map_throwing (\<lambda>service. get_prop service (str ''id'')) recs
      = Inr (map (\<lambda>r. JStr (the (record_id r))) recs)"
  proof -
    have "map_throwing (\<lambda>service. get_prop service (str ''id'')) recs
        = map_throwing (\<lambda>r. Inr (JStr (the (record_id r)))) recs"
    proof (rule map_throwing_cong_set)
      fix x assume "x \<in> set recs"
      with assms obtain i where "record_id x = Some i" by auto
      moreover from this have "get_prop x (str ''id'') = Inr (JStr i)"
        by (simp add: record_id_Some_iff)
      ultimately show "get_prop x (str ''id'') = Inr (JStr (the (record_id x)))"
        by simp
    qed
    then show ?thesis by (simp add: map_throwing_total)
  qed
  show ?thesis
    by (simp add: getJsonObjectNames_def ids map_throwing_map normalizeFileName_JStr
        map_throwing_total comp_def)
qed

lemma getJsonObjectNames_Inl_TypeError:
  assumes "getJsonObjectNames recs = Inl e"
  shows "e = TypeError"
proof -
  have a: "\<And>x e. get_prop x (str ''id'') = Inl e \<Longrightarrow> e = TypeError"
    by (rule get_prop_Inl)
  have b: "\<And>x e. normalizeFileName x = Inl e \<Longrightarrow> e = TypeError"
    by (simp add: normalizeFileName_Inl_iff)
  show ?thesis
  proof (cases "map_throwing (\<lambda>service. get_prop service (str ''id'')) recs")
    case (Inl e')
    with assms have "e' = e" by (simp add: getJsonObjectNames_def)
    with Inl a show ?thesis by (blast dest: map_throwing_Inl_TypeError [rotated])
  next
    case (Inr ids)
    with assms have "map_throwing normalizeFileName ids = Inl e"
      by (simp add: getJsonObjectNames_def split: sum.splits)
    with b show ?thesis by (blast dest: map_throwing_Inl_TypeError [rotated])
  qed
qed

lemma getJsonObjectNames_fails:
  assumes "r \<in> set recs" and "record_id r = None"
  shows "getJsonObjectNames recs = Inl TypeError"
proof -
  have "\<forall>names. getJsonObjectNames recs \<noteq> Inr names"
  proof (intro allI notI)
    fix names assume ok: "getJsonObjectNames recs = Inr names"
    then obtain ids where ids: "map_throwing (\<lambda>service. get_prop service (str ''id'')) recs = Inr ids"
      and norm: "\<exists>ns. map_throwing normalizeFileName ids = Inr ns"
      unfolding getJsonObjectNames_def by (auto split: sum.splits)
    from ids have l1: "list_all2 (\<lambda>x y. get_prop x (str ''id'') = Inr y) recs ids"
      by (simp add: map_throwing_Inr_iff)
    from norm obtain ns where l2: "list_all2 (\<lambda>x y. normalizeFileName x = Inr y) ids ns"
      by (auto simp: map_throwing_Inr_iff)
    from assms(1) obtain k where k: "k < length recs" "recs ! k = r"
      by (auto simp: in_set_conv_nth)
    from l1 k have g: "get_prop r (str ''id'') = Inr (ids ! k)"
      by (auto simp: list_all2_conv_all_nth)
    from l1 l2 k have "normalizeFileName (ids ! k) = Inr (ns ! k)"
      by (auto simp: list_all2_conv_all_nth)
    then obtain s where "ids ! k = JStr s"
      by (auto simp: normalizeFileName_Inr_iff)
    with g have "record_id r = Some s" by (simp add: record_id_Some_iff)
    with assms(2) show False by simp
  qed
  then obtain e where "getJsonObjectNames recs = Inl e"
    by (cases "getJsonObjectNames recs") auto
  then show ?thesis using getJsonObjectNames_Inl_TypeError by blast
qed

section \<open>The loader and the writer\<close>

lemma getJsonObjects_JArr:
  "getJsonObjects env p w = (JArr recs, w') \<Longrightarrow> w' = w"
  by (auto simp: getJsonObjects_def split: sum.splits)

lemma rewriteYMLFile_returns: "fst (rewriteYMLFile env names recs w) = Inr ()"
  by (simp add: rewriteYMLFile_def split: sum.splits prod.splits)

lemma writeRemovedServices_Cons:
  "writeRemovedServices env (obj # rest) w =
     (case get_prop obj (str ''id'') of
        Inl e \<Rightarrow> (Inl e, w)
      | Inr idv \<Rightarrow>
          (case template_value env idv of
             Inl e \<Rightarrow> (Inl e, w)
           | Inr ids \<Rightarrow>
               (case yaml_dump env (- 1) obj of
                  Inl e \<Rightarrow> (Inl e, w)
                | Inr data \<Rightarrow>
                    (case writeFile env (writeFile_calls w)
                            (path_join (servicesDir env @ str ''/'' @ ids @ YML_FILE_EXTENSION)) data of
                       Some e \<Rightarrow>
                         (Inl e, w\<lparr>writeFile_calls := writeFile_calls w @
                            [(path_join (servicesDir env @ str ''/'' @ ids @ YML_FILE_EXTENSION), data, Some e)]\<rparr>)
                     | None \<Rightarrow>
                         writeRemovedServices env rest
                           (w\<lparr>writeFile_calls := writeFile_calls w @
                              [(path_join (servicesDir env @ str ''/'' @ ids @ YML_FILE_EXTENSION), data, None)]\<rparr>)))))"
  by (cases rest) (simp_all add: Let_def split: sum.splits option.splits)

lemma writeRemovedServices_append:
  "writeRemovedServices env pre w = (Inr (), w1) \<Longrightarrow>
   writeRemovedServices env (pre @ rest) w = writeRemovedServices env rest w1"
proof (induction pre arbitrary: w)
  case Nil
  then show ?case by simp
next
  case (Cons obj pre)
  from Cons.prems show ?case
    unfolding append_Cons writeRemovedServices_Cons
    by (auto split: sum.splits option.splits intro: Cons.IH)
qed

lemma template_value_JStr: "template_value env (JStr i) = Inr i"
  by (simp add: template_value_def)

lemma writeRemovedServices_all_succeed:
  assumes "\<forall>obj \<in> set objs. record_id obj \<noteq> None \<and> (\<exists>data. yaml_dump env (- 1) obj = Inr data)"
      and "\<forall>calls target data. writeFile env calls target data = None"
  shows "\<exists>new. writeRemovedServices env objs w = (Inr (), w\<lparr>writeFile_calls := writeFile_calls w @ new\<rparr>)
      \<and> list_all2 (\<lambda>obj call. \<exists>i data. record_id obj = Some i \<and> yaml_dump env (- 1) obj = Inr data
            \<and> call = (path_join (servicesDir env @ str ''/'' @ i @ YML_FILE_EXTENSION), data, None))
          objs new"
  using assms(1)
proof (induction objs arbitrary: w)
  case Nil
  then show ?case by simp
next
  case (Cons obj objs)
  from Cons.prems obtain i data where i: "record_id obj = Some i"
    and data: "yaml_dump env (- 1) obj = Inr data"
    by auto
  let ?call = "(path_join (servicesDir env @ str ''/'' @ i @ YML_FILE_EXTENSION), data, None :: js_error option)"
  let ?w = "w\<lparr>writeFile_calls := writeFile_calls w @ [?call]\<rparr>"
  from i have g: "get_prop obj (str ''id'') = Inr (JStr i)"
    by (simp add: record_id_Some_iff)
  have step: "writeRemovedServices env (obj # objs) w = writeRemovedServices env objs ?w"
    unfolding writeRemovedServices_Cons
    by (simp add: g template_value_JStr data assms(2))
  from Cons.prems have "\<forall>obj \<in> set objs. record_id obj \<noteq> None \<and> (\<exists>data. yaml_dump env (- 1) obj = Inr data)"
    by simp
  from Cons.IH [OF this, of ?w] obtain new where
    new: "writeRemovedServices env objs ?w = (Inr (), ?w\<lparr>writeFile_calls := writeFile_calls ?w @ new\<rparr>)"
    and rel: "list_all2 (\<lambda>obj call. \<exists>i data. record_id obj = Some i \<and> yaml_dump env (- 1) obj = Inr data
            \<and> call = (path_join (servicesDir env @ str ''/'' @ i @ YML_FILE_EXTENSION), data, None))
          objs new"
    by blast
  from step new have "writeRemovedServices env (obj # objs) w
      = (Inr (), w\<lparr>writeFile_calls := writeFile_calls w @ (?call # new)\<rparr>)"
    by simp
  moreover from i data rel
  have "list_all2 (\<lambda>obj call. \<exists>i data. record_id obj = Some i \<and> yaml_dump env (- 1) obj = Inr data
            \<and> call = (path_join (servicesDir env @ str ''/'' @ i @ YML_FILE_EXTENSION), data, None))
          (obj # objs) (?call # new)"
    by simp
  ultimately show ?case by blast
qed

lemma writeRemovedServices_written:
  assumes "list_all2 (\<lambda>obj call. \<exists>i data. record_id obj = Some i \<and> yaml_dump env (- 1) obj = Inr data
              \<and> call = (path_join (servicesDir env @ str ''/'' @ i @ YML_FILE_EXTENSION), data, None))
            pre written"
      and "\<forall>j < length written.
             writeFile env (writeFile_calls w @ take j written)
               (fst (written ! j)) (fst (snd (written ! j))) = None"
  shows "writeRemovedServices env pre w = (Inr (), w\<lparr>writeFile_calls := writeFile_calls w @ written\<rparr>)"
  using assms
proof (induction pre arbitrary: w written)
  case Nil
  then show ?case by simp
next
  case (Cons obj pre)
  from Cons.prems(1) obtain i data rest where
    written: "written = (path_join (servicesDir env @ str ''/'' @ i @ YML_FILE_EXTENSION), data, None) # rest"
    and i: "record_id obj = Some i" and data: "yaml_dump env (- 1) obj = Inr data"
    and rel: "list_all2 (\<lambda>obj call. \<exists>i data. record_id obj = Some i \<and> yaml_dump env (- 1) obj = Inr data
              \<and> call = (path_join (servicesDir env @ str ''/'' @ i @ YML_FILE_EXTENSION), data, None))
            pre rest"
    by (auto simp: list_all2_Cons1)
  let ?target = "path_join (servicesDir env @ str ''/'' @ i @ YML_FILE_EXTENSION)"
  let ?w = "w\<lparr>writeFile_calls := writeFile_calls w @ [(?target, data, None)]\<rparr>"
  from Cons.prems(2) [rule_format, of 0] written
  have first: "writeFile env (writeFile_calls w) ?target data = None"
    by simp
  have later: "\<forall>j < length rest.
      writeFile env (writeFile_calls ?w @ take j rest) (fst (rest ! j)) (fst (snd (rest ! j))) = None"
  proof (intro allI impI)
    fix j assume "j < length rest"
    with Cons.prems(2) [rule_format, of "Suc j"] written
    show "writeFile env (writeFile_calls ?w @ take j rest) (fst (rest ! j)) (fst (snd (rest ! j))) = None"
      by simp
  qed
  from i have g: "get_prop obj (str ''id'') = Inr (JStr i)"
    by (simp add: record_id_Some_iff)
  have "writeRemovedServices env (obj # pre) w = writeRemovedServices env pre ?w"
    unfolding writeRemovedServices_Cons
    by (simp add: g template_value_JStr data first)
  also from Cons.IH [OF rel later]
  have "\<dots> = (Inr (), ?w\<lparr>writeFile_calls := writeFile_calls ?w @ rest\<rparr>)" .
  finally show ?case using written by simp
qed

section \<open>Resolving a key to its record\<close>

lemma id_matches_record:
  "record_id r = Some i \<Longrightarrow>
   id_matches k r = Inr (normalizeFileName (JStr i) = Inr k)"
  by (auto simp: id_matches_def record_id_Some_iff normalizeFileName_JStr)

lemma find_throwing_first:
  assumes "\<forall>r \<in> set recs. record_id r \<noteq> None"
      and "\<exists>r \<in> set recs. \<exists>i. record_id r = Some i \<and> normalizeFileName (JStr i) = Inr k"
  shows "\<exists>pre obj post i. recs = pre @ obj # post
           \<and> find_throwing (id_matches k) recs = Inr obj
           \<and> record_id obj = Some i \<and> normalizeFileName (JStr i) = Inr k
           \<and> (\<forall>r \<in> set pre. \<forall>j. record_id r = Some j \<longrightarrow> normalizeFileName (JStr j) \<noteq> Inr k)"
  using assms
proof (induction recs)
  case Nil
  then show ?case by simp
next
  case (Cons a recs)
  from Cons.prems(1) obtain ia where ia: "record_id a = Some ia" by auto
  show ?case
  proof (cases "normalizeFileName (JStr ia) = Inr k")
    case True
    with ia have "find_throwing (id_matches k) (a # recs) = Inr a"
      by (simp add: id_matches_record)
    with ia True have "a # recs = [] @ a # recs \<and> find_throwing (id_matches k) (a # recs) = Inr a
        \<and> record_id a = Some ia \<and> normalizeFileName (JStr ia) = Inr k
        \<and> (\<forall>r \<in> set []. \<forall>j. record_id r = Some j \<longrightarrow> normalizeFileName (JStr j) \<noteq> Inr k)"
      by simp
    then show ?thesis by blast
  next
    case False
    with ia Cons.prems(2)
    have ex: "\<exists>r \<in> set recs. \<exists>i. record_id r = Some i \<and> normalizeFileName (JStr i) = Inr k"
      by auto
    from Cons.prems(1) have "\<forall>r \<in> set recs. record_id r \<noteq> None" by simp
    from Cons.IH [OF this ex] obtain pre obj post i where
      split: "recs = pre @ obj # post" and
      found: "find_throwing (id_matches k) recs = Inr obj" and
      oid: "record_id obj = Some i" "normalizeFileName (JStr i) = Inr k" and
      before: "\<forall>r \<in> set pre. \<forall>j. record_id r = Some j \<longrightarrow> normalizeFileName (JStr j) \<noteq> Inr k"
      by blast
    from ia False found have "find_throwing (id_matches k) (a # recs) = Inr obj"
      by (simp add: id_matches_record)
    moreover from split have "a # recs = (a # pre) @ obj # post" by simp
    moreover from before ia False
    have "\<forall>r \<in> set (a # pre). \<forall>j. record_id r = Some j \<longrightarrow> normalizeFileName (JStr j) \<noteq> Inr k"
      by auto
    ultimately show ?thesis using oid by blast
  qed
qed

lemma removedServicesObjects_first:
  assumes "\<forall>r \<in> set recs. record_id r \<noteq> None"
      and "\<forall>k \<in> set names. \<exists>r \<in> set recs. \<exists>i. record_id r = Some i \<and> normalizeFileName (JStr i) = Inr k"
  shows "\<exists>objs. removedServicesObjects names recs = Inr objs
      \<and> list_all2 (\<lambda>k obj. \<exists>pre post i. recs = pre @ obj # post
            \<and> record_id obj = Some i \<and> normalizeFileName (JStr i) = Inr k
            \<and> (\<forall>r \<in> set pre. \<forall>j. record_id r = Some j \<longrightarrow> normalizeFileName (JStr j) \<noteq> Inr k))
          names objs"
  using assms(2)
proof (induction names)
  case Nil
  then show ?case by (simp add: removedServicesObjects_def)
next
  case (Cons k names)
  from Cons.prems have "\<exists>r \<in> set recs. \<exists>i. record_id r = Some i \<and> normalizeFileName (JStr i) = Inr k"
    by simp
  from find_throwing_first [OF assms(1) this] obtain pre obj post i where
    first: "recs = pre @ obj # post" "find_throwing (id_matches k) recs = Inr obj"
      "record_id obj = Some i" "normalizeFileName (JStr i) = Inr k"
      "\<forall>r \<in> set pre. \<forall>j. record_id r = Some j \<longrightarrow> normalizeFileName (JStr j) \<noteq> Inr k"
    by blast
  from Cons have "\<exists>objs. removedServicesObjects names recs = Inr objs
      \<and> list_all2 (\<lambda>k obj. \<exists>pre post i. recs = pre @ obj # post
            \<and> record_id obj = Some i \<and> normalizeFileName (JStr i) = Inr k
            \<and> (\<forall>r \<in> set pre. \<forall>j. record_id r = Some j \<longrightarrow> normalizeFileName (JStr j) \<noteq> Inr k))
          names objs"
    by simp
  then obtain objs where rest: "removedServicesObjects names recs = Inr objs"
    "list_all2 (\<lambda>k obj. \<exists>pre post i. recs = pre @ obj # post
            \<and> record_id obj = Some i \<and> normalizeFileName (JStr i) = Inr k
            \<and> (\<forall>r \<in> set pre. \<forall>j. record_id r = Some j \<longrightarrow> normalizeFileName (JStr j) \<noteq> Inr k))
          names objs"
    by blast
  from first(2) rest(1) have "removedServicesObjects (k # names) recs = Inr (obj # objs)"
    by (simp add: removedServicesObjects_def)
  moreover from first rest(2)
  have "list_all2 (\<lambda>k obj. \<exists>pre post i. recs = pre @ obj # post
            \<and> record_id obj = Some i \<and> normalizeFileName (JStr i) = Inr k
            \<and> (\<forall>r \<in> set pre. \<forall>j. record_id r = Some j \<longrightarrow> normalizeFileName (JStr j) \<noteq> Inr k))
          (k # names) (obj # objs)"
    by blast
  ultimately show ?case by blast
qed

lemma rewriteYMLFile_resolved:
  "removedServicesObjects names recs = Inr objs \<Longrightarrow>
   rewriteYMLFile env names recs w =
     (case writeRemovedServices env objs w of
        (Inl e, w') \<Rightarrow>
          (Inr (), w'\<lparr>console := console w' @ [ConsoleError (str ''Error while rewriting file:'') e]\<rparr>)
      | (Inr u, w') \<Rightarrow> (Inr (), w'))"
  by (simp add: rewriteYMLFile_def)

section \<open>The orchestrator and the differ\<close>

lemma checkRemovedServices_reached:
  assumes "getJsonObjects env jsonFilePath w = (JArr recs, w1)"
      and "getYmlFileNames env servicesFolderPath = Inr ymls"
      and "getJsonObjectNames recs = Inr names"
  shows "checkRemovedServices env servicesFolderPath jsonFilePath w =
     (if differences ymls names = [] then (Inr (), w)
      else (Inr (), (snd (rewriteYMLFile env (differences ymls names) recs w))
              \<lparr>console := console (snd (rewriteYMLFile env (differences ymls names) recs w))
                 @ [ConsoleLog (summary (differences ymls names))]\<rparr>))"
proof -
  from assms(1) have w1: "w1 = w" by (rule getJsonObjects_JArr)
  obtain r w2 where rw: "rewriteYMLFile env (differences ymls names) recs w = (r, w2)"
    by (cases "rewriteYMLFile env (differences ymls names) recs w")
  with rewriteYMLFile_returns [of env "differences ymls names" recs w] have "r = Inr ()"
    by simp
  with rw assms w1 show ?thesis
    by (simp add: checkRemovedServices_def Let_def)
qed

lemma checkRemovedServices_not_array:
  assumes "getJsonObjects env jsonFilePath w = (v, w1)" and "\<forall>recs. v \<noteq> JArr recs"
  shows "checkRemovedServices env servicesFolderPath jsonFilePath w = (Inr (), w1)"
  using assms by (cases v) (simp_all add: checkRemovedServices_def)

lemma record_keys_image:
  assumes "\<forall>r \<in> set recs. record_id r \<noteq> None"
  shows "{k. \<exists>r \<in> set recs. \<exists>i. record_id r = Some i \<and> normalizeFileName (JStr i) = Inr k}
       = (\<lambda>r. replace_specificCharacters (toLowerCase (the (record_id r)))) ` set recs"
  using assms by (force simp: normalizeFileName_JStr image_iff)

lemma file_keys_image:
  "{k. \<exists>f \<in> set files. normalizeFileName (JStr (parse_name f)) = Inr k}
     = (\<lambda>f. replace_specificCharacters (toLowerCase (parse_name f))) ` set files"
  by (force simp: normalizeFileName_JStr image_iff)

lemma set_differences:
  "set (differences ymls names) = set names - set ymls"
  by (auto simp: differences_def array_includes_def)

lemma sorted_differences:
  "sorted names \<Longrightarrow> sorted (differences ymls names)"
  by (simp add: differences_def sorted_wrt_filter)

section \<open>The claims\<close>

text \<open>
  C1. When the legacy array is loaded, its records have string ids and the directory
  is listed, the diff of \<open>checkRemovedServices\<close> holds exactly the normalized legacy
  ids that are not the normalized, extension-stripped name of a listed file, it is
  sorted ascending, and it is the list the run goes on with.
\<close>

theorem differences_exact_and_sorted:
  assumes "getJsonObjects env jsonFilePath w = (JArr recs, w1)"
      and "readdir env servicesFolderPath = Inr files"
      and "\<forall>r \<in> set recs. record_id r \<noteq> None"
  shows "\<exists>ymlFileNames jsonObjectNames ds.
           getYmlFileNames env servicesFolderPath = Inr ymlFileNames
         \<and> getJsonObjectNames recs = Inr jsonObjectNames
         \<and> ds = differences ymlFileNames jsonObjectNames
         \<and> set ds =
             {k. \<exists>r \<in> set recs. \<exists>i. record_id r = Some i \<and> normalizeFileName (JStr i) = Inr k}
             - {k. \<exists>f \<in> set files. normalizeFileName (JStr (parse_name f)) = Inr k}
         \<and> sorted ds
         \<and> checkRemovedServices env servicesFolderPath jsonFilePath w =
             (if ds = [] then (Inr (), w)
              else (Inr (), (snd (rewriteYMLFile env ds recs w))
                      \<lparr>console := console (snd (rewriteYMLFile env ds recs w))
                         @ [ConsoleLog (summary ds)]\<rparr>))"
proof -
  let ?ymls = "sort (map (\<lambda>f. replace_specificCharacters (toLowerCase (parse_name f))) files)"
  let ?names = "sort (map (\<lambda>r. replace_specificCharacters (toLowerCase (the (record_id r)))) recs)"
  have y: "getYmlFileNames env servicesFolderPath = Inr ?ymls"
    using assms(2) by (rule getYmlFileNames_Inr)
  have n: "getJsonObjectNames recs = Inr ?names"
    using assms(3) by (rule getJsonObjectNames_Inr)
  have "set (differences ?ymls ?names) =
      {k. \<exists>r \<in> set recs. \<exists>i. record_id r = Some i \<and> normalizeFileName (JStr i) = Inr k}
      - {k. \<exists>f \<in> set files. normalizeFileName (JStr (parse_name f)) = Inr k}"
    by (simp add: set_differences record_keys_image [OF assms(3)] file_keys_image)
  moreover have "sorted (differences ?ymls ?names)"
    by (simp add: sorted_differences)
  moreover note checkRemovedServices_reached [OF assms(1) y n] y n
  ultimately show ?thesis by blast
qed

theorem differences_exact_and_sorted_witness:
  "getJsonObjects env_example (str ''/repo/assets/services.json'') empty_world
     = (JArr [service ''Example.com'', service ''other''], empty_world)
   \<and> readdir env_example (str ''/repo/services'') = Inr [str ''other.yml'']
   \<and> record_id (service ''Example.com'') = Some (str ''Example.com'')
   \<and> record_id (service ''other'') = Some (str ''other'')
   \<and> getYmlFileNames env_example (str ''/repo/services'') = Inr [str ''other'']
   \<and> getJsonObjectNames [service ''Example.com'', service ''other'']
       = Inr [str ''example.com'', str ''other'']
   \<and> differences [str ''other''] [str ''example.com'', str ''other''] = [str ''example.com'']
   \<and> set [str ''example.com''] =
       {k. \<exists>r \<in> set [service ''Example.com'', service ''other''].
             \<exists>i. record_id r = Some i \<and> normalizeFileName (JStr i) = Inr k}
       - {k. \<exists>f \<in> set [str ''other.yml'']. normalizeFileName (JStr (parse_name f)) = Inr k}
   \<and> sorted [str ''example.com'']"
proof -
  have h1: "getJsonObjects env_example (str ''/repo/assets/services.json'') empty_world
     = (JArr [service ''Example.com'', service ''other''], empty_world)"
    by code_simp
  have h2: "readdir env_example (str ''/repo/services'') = Inr [str ''other.yml'']"
    by code_simp
  have i1: "record_id (service ''Example.com'') = Some (str ''Example.com'')"
    by code_simp
  have i2: "record_id (service ''other'') = Some (str ''other'')"
    by code_simp
  have h3: "\<forall>r \<in> set [service ''Example.com'', service ''other'']. record_id r \<noteq> None"
    using i1 i2 by simp
  have y: "getYmlFileNames env_example (str ''/repo/services'') = Inr [str ''other'']"
    by code_simp
  have n: "getJsonObjectNames [service ''Example.com'', service ''other'']
       = Inr [str ''example.com'', str ''other'']"
    by code_simp
  have d: "differences [str ''other''] [str ''example.com'', str ''other''] = [str ''example.com'']"
    by code_simp
  from differences_exact_and_sorted [OF h1 h2 h3] y n d
  have "set [str ''example.com''] =
       {k. \<exists>r \<in> set [service ''Example.com'', service ''other''].
             \<exists>i. record_id r = Some i \<and> normalizeFileName (JStr i) = Inr k}
       - {k. \<exists>f \<in> set [str ''other.yml'']. normalizeFileName (JStr (parse_name f)) = Inr k}
     \<and> sorted [str ''example.com'']"
    by auto
  with h1 h2 i1 i2 y n d show ?thesis by blast
qed

text \<open>
  C2, as the code has it. For every missing key, in order, the record resolved for it
  is serialized by \<^verbatim>\<open>yaml.dump\<close> with \<^verbatim>\<open>lineWidth\<close> \<open>- 1\<close> and handed to
  \<^verbatim>\<open>writeFile\<close> under the path \<^verbatim>\<open>path.join\<close> makes of \<open>servicesDir\<close>, a slash,
  the record's own id and \<^verbatim>\<open>.yml\<close>. \<open>servicesDir\<close> is the constant of the module,
  resolved from the place of the script; \<open>servicesFolderPath\<close> is only listed.
\<close>

theorem removed_service_written_under_servicesDir:
  assumes "getJsonObjects env jsonFilePath w = (JArr recs, w1)"
      and "readdir env servicesFolderPath = Inr files"
      and "\<forall>r \<in> set recs. record_id r \<noteq> None \<and> (\<exists>data. yaml_dump env (- 1) r = Inr data)"
      and "\<forall>calls target data. writeFile env calls target data = None"
  shows "\<exists>ymlFileNames jsonObjectNames objs new.
           getYmlFileNames env servicesFolderPath = Inr ymlFileNames
         \<and> getJsonObjectNames recs = Inr jsonObjectNames
         \<and> removedServicesObjects (differences ymlFileNames jsonObjectNames) recs = Inr objs
         \<and> writeFile_calls (snd (checkRemovedServices env servicesFolderPath jsonFilePath w))
             = writeFile_calls w @ new
         \<and> list_all2 (\<lambda>obj call. \<exists>i data. record_id obj = Some i \<and> yaml_dump env (- 1) obj = Inr data
               \<and> call = (path_join (servicesDir env @ str ''/'' @ i @ YML_FILE_EXTENSION), data, None))
             objs new"
proof -
  let ?ymls = "sort (map (\<lambda>f. replace_specificCharacters (toLowerCase (parse_name f))) files)"
  let ?names = "sort (map (\<lambda>r. replace_specificCharacters (toLowerCase (the (record_id r)))) recs)"
  let ?ds = "differences ?ymls ?names"
  from assms(3) have ids: "\<forall>r \<in> set recs. record_id r \<noteq> None" by simp
  have y: "getYmlFileNames env servicesFolderPath = Inr ?ymls"
    using assms(2) by (rule getYmlFileNames_Inr)
  have n: "getJsonObjectNames recs = Inr ?names"
    using ids by (rule getJsonObjectNames_Inr)
  have keys: "\<forall>k \<in> set ?ds. \<exists>r \<in> set recs. \<exists>i. record_id r = Some i \<and> normalizeFileName (JStr i) = Inr k"
  proof
    fix k assume "k \<in> set ?ds"
    then have "k \<in> (\<lambda>r. replace_specificCharacters (toLowerCase (the (record_id r)))) ` set recs"
      by (simp add: set_differences)
    then have "k \<in> {k. \<exists>r \<in> set recs. \<exists>i. record_id r = Some i \<and> normalizeFileName (JStr i) = Inr k}"
      by (simp only: record_keys_image [OF ids])
    then show "\<exists>r \<in> set recs. \<exists>i. record_id r = Some i \<and> normalizeFileName (JStr i) = Inr k"
      by simp
  qed
  from removedServicesObjects_first [OF ids keys] obtain objs where
    objs: "removedServicesObjects ?ds recs = Inr objs"
    and first: "list_all2 (\<lambda>k obj. \<exists>pre post i. recs = pre @ obj # post
            \<and> record_id obj = Some i \<and> normalizeFileName (JStr i) = Inr k
            \<and> (\<forall>r \<in> set pre. \<forall>j. record_id r = Some j \<longrightarrow> normalizeFileName (JStr j) \<noteq> Inr k))
          ?ds objs"
    by blast
  have sub: "set objs \<subseteq> set recs"
  proof
    fix obj assume "obj \<in> set objs"
    then obtain m where "m < length objs" "objs ! m = obj"
      by (auto simp: in_set_conv_nth)
    with first obtain pre post where "recs = pre @ obj # post"
      by (auto simp: list_all2_conv_all_nth)
    then show "obj \<in> set recs" by simp
  qed
  with assms(3)
  have "\<forall>obj \<in> set objs. record_id obj \<noteq> None \<and> (\<exists>data. yaml_dump env (- 1) obj = Inr data)"
    by blast
  from writeRemovedServices_all_succeed [OF this assms(4), of w] obtain new where
    wr: "writeRemovedServices env objs w = (Inr (), w\<lparr>writeFile_calls := writeFile_calls w @ new\<rparr>)"
    and rel: "list_all2 (\<lambda>obj call. \<exists>i data. record_id obj = Some i \<and> yaml_dump env (- 1) obj = Inr data
               \<and> call = (path_join (servicesDir env @ str ''/'' @ i @ YML_FILE_EXTENSION), data, None))
             objs new"
    by blast
  have calls: "writeFile_calls (snd (checkRemovedServices env servicesFolderPath jsonFilePath w))
             = writeFile_calls w @ new"
  proof (cases "?ds = []")
    case True
    with first have "objs = []" by simp
    with rel have "new = []" by simp
    with True checkRemovedServices_reached [OF assms(1) y n] show ?thesis by simp
  next
    case False
    have "rewriteYMLFile env ?ds recs w = (Inr (), w\<lparr>writeFile_calls := writeFile_calls w @ new\<rparr>)"
      by (simp add: rewriteYMLFile_resolved [OF objs] wr)
    with False checkRemovedServices_reached [OF assms(1) y n] show ?thesis by simp
  qed
  from y n objs calls rel show ?thesis by blast
qed

theorem removed_service_written_under_servicesDir_witness:
  "getJsonObjects env_example (str ''/repo/assets/services.json'') empty_world
     = (JArr [service ''Example.com'', service ''other''], empty_world)
   \<and> readdir env_example (str ''/data/services'') = Inr [str ''other.yml'']
   \<and> record_id (service ''Example.com'') = Some (str ''Example.com'')
   \<and> yaml_dump env_example (- 1) (service ''Example.com'') = Inr (str ''id: Example.com'' @ [0x0A])
   \<and> record_id (service ''other'') = Some (str ''other'')
   \<and> yaml_dump env_example (- 1) (service ''other'') = Inr (str ''id: other'' @ [0x0A])
   \<and> all_writes_succeed [] [] [] = None
   \<and> servicesDir env_example = str ''/repo/services''
   \<and> removedServicesObjects [str ''example.com''] [service ''Example.com'', service ''other'']
       = Inr [service ''Example.com'']
   \<and> writeFile_calls (snd (checkRemovedServices env_example (str ''/data/services'')
         (str ''/repo/assets/services.json'') empty_world))
       = [(str ''/repo/services/Example.com.yml'', str ''id: Example.com'' @ [0x0A], None)]"
proof -
  have h1: "getJsonObjects env_example (str ''/repo/assets/services.json'') empty_world
     = (JArr [service ''Example.com'', service ''other''], empty_world)"
    by code_simp
  have h2: "readdir env_example (str ''/data/services'') = Inr [str ''other.yml'']"
    by code_simp
  have i1: "record_id (service ''Example.com'') = Some (str ''Example.com'')"
    by code_simp
  have d1: "yaml_dump env_example (- 1) (service ''Example.com'') = Inr (str ''id: Example.com'' @ [0x0A])"
    by code_simp
  have i2: "record_id (service ''other'') = Some (str ''other'')"
    by code_simp
  have d2: "yaml_dump env_example (- 1) (service ''other'') = Inr (str ''id: other'' @ [0x0A])"
    by code_simp
  have h3: "\<forall>r \<in> set [service ''Example.com'', service ''other''].
      record_id r \<noteq> None \<and> (\<exists>data. yaml_dump env_example (- 1) r = Inr data)"
    using i1 d1 i2 d2 by simp
  have h4: "\<forall>calls target data. writeFile env_example calls target data = None"
    by (simp add: env_example_def example_env_def all_writes_succeed_def)
  have a: "all_writes_succeed [] [] [] = None"
    by (simp add: all_writes_succeed_def)
  have sd: "servicesDir env_example = str ''/repo/services''"
    by code_simp
  have y: "getYmlFileNames env_example (str ''/data/services'') = Inr [str ''other'']"
    by code_simp
  have n: "getJsonObjectNames [service ''Example.com'', service ''other'']
       = Inr [str ''example.com'', str ''other'']"
    by code_simp
  have d: "differences [str ''other''] [str ''example.com'', str ''other''] = [str ''example.com'']"
    by code_simp
  have r: "removedServicesObjects [str ''example.com''] [service ''Example.com'', service ''other'']
       = Inr [service ''Example.com'']"
    by code_simp
  have p: "path_join (str ''/repo/services'' @ str ''/'' @ str ''Example.com'' @ YML_FILE_EXTENSION)
       = str ''/repo/services/Example.com.yml''"
    by code_simp
  have e: "writeFile_calls empty_world = []"
    by (simp add: empty_world_def)
  from removed_service_written_under_servicesDir [OF h1 h2 h3 h4]
  obtain objs new where
    "removedServicesObjects [str ''example.com''] [service ''Example.com'', service ''other''] = Inr objs"
    and calls: "writeFile_calls (snd (checkRemovedServices env_example (str ''/data/services'')
         (str ''/repo/assets/services.json'') empty_world)) = new"
    and rel: "list_all2 (\<lambda>obj call. \<exists>i data. record_id obj = Some i
               \<and> yaml_dump env_example (- 1) obj = Inr data
               \<and> call = (path_join (str ''/repo/services'' @ str ''/'' @ i @ YML_FILE_EXTENSION), data, None))
             objs new"
    unfolding y n sd e by (auto simp: d)
  with r have "objs = [service ''Example.com'']" by simp
  with rel i1 d1 p have "new = [(str ''/repo/services/Example.com.yml'', str ''id: Example.com'' @ [0x0A], None)]"
    by (auto simp: list_all2_Cons1)
  with calls h1 h2 i1 d1 i2 d2 a sd r show ?thesis by blast
qed

text \<open>
  C2 as it is stated fails: listing \<^verbatim>\<open>/data/services\<close>, the run writes the missing
  record into \<^verbatim>\<open>/repo/services\<close>, the directory beside the script, and not
  into the directory it listed.
\<close>

theorem written_outside_the_listed_directory:
  "readdir env_example (str ''/data/services'') = Inr [str ''other.yml'']
   \<and> map fst (writeFile_calls (snd (checkRemovedServices env_example (str ''/data/services'')
        (str ''/repo/assets/services.json'') empty_world)))
       = [str ''/repo/services/Example.com.yml'']
   \<and> map fst (writeFile_calls (snd (checkRemovedServices env_example (str ''/data/services'')
        (str ''/repo/assets/services.json'') empty_world)))
       \<noteq> [str ''/data/services'' @ str ''/'' @ str ''Example.com'' @ YML_FILE_EXTENSION]"
  by code_simp

text \<open>
  C3. When the legacy array is loaded, the directory is listed, and the normalized id
  of every record is the normalized name of a listed file, the diff is empty and the
  run ends as it began: no call of \<^verbatim>\<open>writeFile\<close>, no line on the console, no
  exception.
\<close>

theorem nothing_missing_nothing_done:
  assumes "getJsonObjects env jsonFilePath w = (JArr recs, w1)"
      and "readdir env servicesFolderPath = Inr files"
      and "\<forall>r \<in> set recs. \<exists>i. record_id r = Some i
             \<and> (\<exists>f \<in> set files. normalizeFileName (JStr (parse_name f)) = normalizeFileName (JStr i))"
  shows "\<exists>ymlFileNames jsonObjectNames.
           getYmlFileNames env servicesFolderPath = Inr ymlFileNames
         \<and> getJsonObjectNames recs = Inr jsonObjectNames
         \<and> differences ymlFileNames jsonObjectNames = []
         \<and> checkRemovedServices env servicesFolderPath jsonFilePath w = (Inr (), w)"
proof -
  let ?ymls = "sort (map (\<lambda>f. replace_specificCharacters (toLowerCase (parse_name f))) files)"
  let ?names = "sort (map (\<lambda>r. replace_specificCharacters (toLowerCase (the (record_id r)))) recs)"
  from assms(3) have ids: "\<forall>r \<in> set recs. record_id r \<noteq> None" by auto
  have y: "getYmlFileNames env servicesFolderPath = Inr ?ymls"
    using assms(2) by (rule getYmlFileNames_Inr)
  have n: "getJsonObjectNames recs = Inr ?names"
    using ids by (rule getJsonObjectNames_Inr)
  have "set ?names \<subseteq> set ?ymls"
  proof
    fix k assume "k \<in> set ?names"
    then obtain r where r: "r \<in> set recs"
      and k: "k = replace_specificCharacters (toLowerCase (the (record_id r)))"
      by auto
    from assms(3) r obtain i f where "record_id r = Some i" "f \<in> set files"
      "normalizeFileName (JStr (parse_name f)) = normalizeFileName (JStr i)"
      by blast
    with k have "k = replace_specificCharacters (toLowerCase (parse_name f))"
      by (simp add: normalizeFileName_JStr)
    with \<open>f \<in> set files\<close> show "k \<in> set ?ymls" by simp
  qed
  then have "set (differences ?ymls ?names) = {}"
    by (simp add: set_differences)
  then have d: "differences ?ymls ?names = []" by simp
  with checkRemovedServices_reached [OF assms(1) y n] y n show ?thesis by auto
qed

theorem nothing_missing_nothing_done_witness:
  "getJsonObjects env_complete (str ''/repo/assets/services.json'') empty_world
     = (JArr [service ''Example.com'', service ''other''], empty_world)
   \<and> readdir env_complete (str ''/repo/services'') = Inr [str ''other.yml'', str ''example.com.yml'']
   \<and> record_id (service ''Example.com'') = Some (str ''Example.com'')
   \<and> normalizeFileName (JStr (parse_name (str ''example.com.yml''))) = normalizeFileName (JStr (str ''Example.com''))
   \<and> record_id (service ''other'') = Some (str ''other'')
   \<and> normalizeFileName (JStr (parse_name (str ''other.yml''))) = normalizeFileName (JStr (str ''other''))
   \<and> checkRemovedServices env_complete (str ''/repo/services'') (str ''/repo/assets/services.json'') empty_world
       = (Inr (), empty_world)"
proof -
  have h1: "getJsonObjects env_complete (str ''/repo/assets/services.json'') empty_world
     = (JArr [service ''Example.com'', service ''other''], empty_world)"
    by code_simp
  have h2: "readdir env_complete (str ''/repo/services'') = Inr [str ''other.yml'', str ''example.com.yml'']"
    by code_simp
  have i1: "record_id (service ''Example.com'') = Some (str ''Example.com'')"
    by code_simp
  have f1: "normalizeFileName (JStr (parse_name (str ''example.com.yml''))) = normalizeFileName (JStr (str ''Example.com''))"
    by code_simp
  have i2: "record_id (service ''other'') = Some (str ''other'')"
    by code_simp
  have f2: "normalizeFileName (JStr (parse_name (str ''other.yml''))) = normalizeFileName (JStr (str ''other''))"
    by code_simp
  have h3: "\<forall>r \<in> set [service ''Example.com'', service ''other'']. \<exists>i. record_id r = Some i
             \<and> (\<exists>f \<in> set [str ''other.yml'', str ''example.com.yml''].
                   normalizeFileName (JStr (parse_name f)) = normalizeFileName (JStr i))"
    using i1 f1 i2 f2 by simp
  from nothing_missing_nothing_done [OF h1 h2 h3]
  have "checkRemovedServices env_complete (str ''/repo/services'') (str ''/repo/assets/services.json'') empty_world
       = (Inr (), empty_world)"
    by blast
  with h1 h2 i1 f1 i2 f2 show ?thesis by blast
qed

text \<open>
  C4. When every record has a string id and every key is the normalized id of some
  record, \<open>rewriteYMLFile\<close> resolves each key to the first record of the legacy
  array whose normalized id is the key, whatever records with that key follow it, and
  writes the records it resolved.
\<close>

theorem first_matching_record_resolved:
  assumes "\<forall>r \<in> set recs. record_id r \<noteq> None"
      and "\<forall>k \<in> set names. \<exists>r \<in> set recs. \<exists>i. record_id r = Some i \<and> normalizeFileName (JStr i) = Inr k"
  shows "\<exists>objs. removedServicesObjects names recs = Inr objs
      \<and> list_all2 (\<lambda>k obj. \<exists>pre post i. recs = pre @ obj # post
            \<and> record_id obj = Some i \<and> normalizeFileName (JStr i) = Inr k
            \<and> (\<forall>r \<in> set pre. \<forall>j. record_id r = Some j \<longrightarrow> normalizeFileName (JStr j) \<noteq> Inr k))
          names objs
      \<and> rewriteYMLFile env names recs w =
          (case writeRemovedServices env objs w of
             (Inl e, w') \<Rightarrow>
               (Inr (), w'\<lparr>console := console w' @ [ConsoleError (str ''Error while rewriting file:'') e]\<rparr>)
           | (Inr u, w') \<Rightarrow> (Inr (), w'))"
proof -
  from removedServicesObjects_first [OF assms] obtain objs where
    objs: "removedServicesObjects names recs = Inr objs"
    and first: "list_all2 (\<lambda>k obj. \<exists>pre post i. recs = pre @ obj # post
            \<and> record_id obj = Some i \<and> normalizeFileName (JStr i) = Inr k
            \<and> (\<forall>r \<in> set pre. \<forall>j. record_id r = Some j \<longrightarrow> normalizeFileName (JStr j) \<noteq> Inr k))
          names objs"
    by blast
  from objs have "rewriteYMLFile env names recs w =
          (case writeRemovedServices env objs w of
             (Inl e, w') \<Rightarrow>
               (Inr (), w'\<lparr>console := console w' @ [ConsoleError (str ''Error while rewriting file:'') e]\<rparr>)
           | (Inr u, w') \<Rightarrow> (Inr (), w'))"
    by (rule rewriteYMLFile_resolved)
  with objs first show ?thesis by blast
qed

theorem first_matching_record_resolved_witness:
  "record_id (service ''A-B'') = Some (str ''A-B'')
   \<and> record_id (service ''ab'') = Some (str ''ab'')
   \<and> normalizeFileName (JStr (str ''A-B'')) = Inr (str ''ab'')
   \<and> normalizeFileName (JStr (str ''ab'')) = Inr (str ''ab'')
   \<and> removedServicesObjects [str ''ab'', str ''ab''] [service ''A-B'', service ''ab'']
       = Inr [service ''A-B'', service ''A-B'']
   \<and> map fst (writeFile_calls (snd (rewriteYMLFile env_collision [str ''ab'', str ''ab'']
         [service ''A-B'', service ''ab''] empty_world)))
       = [str ''/repo/services/A-B.yml'', str ''/repo/services/A-B.yml'']
   \<and> (\<exists>objs. removedServicesObjects [str ''ab'', str ''ab''] [service ''A-B'', service ''ab''] = Inr objs
      \<and> list_all2 (\<lambda>k obj. \<exists>pre post i. [service ''A-B'', service ''ab''] = pre @ obj # post
            \<and> record_id obj = Some i \<and> normalizeFileName (JStr i) = Inr k
            \<and> (\<forall>r \<in> set pre. \<forall>j. record_id r = Some j \<longrightarrow> normalizeFileName (JStr j) \<noteq> Inr k))
          [str ''ab'', str ''ab''] objs
      \<and> rewriteYMLFile env_collision [str ''ab'', str ''ab''] [service ''A-B'', service ''ab''] empty_world =
          (case writeRemovedServices env_collision objs empty_world of
             (Inl e, w') \<Rightarrow>
               (Inr (), w'\<lparr>console := console w' @ [ConsoleError (str ''Error while rewriting file:'') e]\<rparr>)
           | (Inr u, w') \<Rightarrow> (Inr (), w')))"
proof -
  have i1: "record_id (service ''A-B'') = Some (str ''A-B'')" by code_simp
  have i2: "record_id (service ''ab'') = Some (str ''ab'')" by code_simp
  have n1: "normalizeFileName (JStr (str ''A-B'')) = Inr (str ''ab'')" by code_simp
  have n2: "normalizeFileName (JStr (str ''ab'')) = Inr (str ''ab'')" by code_simp
  have r: "removedServicesObjects [str ''ab'', str ''ab''] [service ''A-B'', service ''ab'']
       = Inr [service ''A-B'', service ''A-B'']"
    by code_simp
  have c: "map fst (writeFile_calls (snd (rewriteYMLFile env_collision [str ''ab'', str ''ab'']
         [service ''A-B'', service ''ab''] empty_world)))
       = [str ''/repo/services/A-B.yml'', str ''/repo/services/A-B.yml'']"
    by code_simp
  have h1: "\<forall>r \<in> set [service ''A-B'', service ''ab'']. record_id r \<noteq> None"
    using i1 i2 by simp
  have h2: "\<forall>k \<in> set [str ''ab'', str ''ab'']. \<exists>r \<in> set [service ''A-B'', service ''ab''].
      \<exists>i. record_id r = Some i \<and> normalizeFileName (JStr i) = Inr k"
    using i1 n1 by simp
  note first_matching_record_resolved [OF h1 h2, of env_collision empty_world]
  with i1 i2 n1 n2 r c show ?thesis by blast
qed

text \<open>
  C5. When the legacy file cannot be read, or its content cannot be parsed, the run
  returns normally with the world it began with and one more console line, the error
  of the loader: no call of \<^verbatim>\<open>writeFile\<close>. When the file parses and the value
  under \<^verbatim>\<open>blocked_services\<close> is not an array, the run returns normally with the
  world unchanged.
\<close>

theorem load_failure_logged_once_not_array_silent:
  "(readFile env jsonFilePath = Inl e \<longrightarrow>
      checkRemovedServices env servicesFolderPath jsonFilePath w =
        (Inr (), w\<lparr>console := console w @ [ConsoleError (str ''Error while reading JSON file:'') e]\<rparr>))
   \<and> (readFile env jsonFilePath = Inr content \<and> JSON_parse env content = Inl e \<longrightarrow>
      checkRemovedServices env servicesFolderPath jsonFilePath w =
        (Inr (), w\<lparr>console := console w @ [ConsoleError (str ''Error while reading JSON file:'') e]\<rparr>))
   \<and> (readFile env jsonFilePath = Inr content \<and> JSON_parse env content = Inr doc
        \<and> get_prop doc (str ''blocked_services'') = Inr v \<and> (\<forall>recs. v \<noteq> JArr recs) \<longrightarrow>
      checkRemovedServices env servicesFolderPath jsonFilePath w = (Inr (), w))"
proof (intro conjI impI)
  assume "readFile env jsonFilePath = Inl e"
  then have "getJsonObjects env jsonFilePath w =
      (JNull, w\<lparr>console := console w @ [ConsoleError (str ''Error while reading JSON file:'') e]\<rparr>)"
    by (simp add: getJsonObjects_def)
  then show "checkRemovedServices env servicesFolderPath jsonFilePath w =
        (Inr (), w\<lparr>console := console w @ [ConsoleError (str ''Error while reading JSON file:'') e]\<rparr>)"
    by (rule checkRemovedServices_not_array) simp
next
  assume "readFile env jsonFilePath = Inr content \<and> JSON_parse env content = Inl e"
  then have "getJsonObjects env jsonFilePath w =
      (JNull, w\<lparr>console := console w @ [ConsoleError (str ''Error while reading JSON file:'') e]\<rparr>)"
    by (simp add: getJsonObjects_def)
  then show "checkRemovedServices env servicesFolderPath jsonFilePath w =
        (Inr (), w\<lparr>console := console w @ [ConsoleError (str ''Error while reading JSON file:'') e]\<rparr>)"
    by (rule checkRemovedServices_not_array) simp
next
  assume a: "readFile env jsonFilePath = Inr content \<and> JSON_parse env content = Inr doc
        \<and> get_prop doc (str ''blocked_services'') = Inr v \<and> (\<forall>recs. v \<noteq> JArr recs)"
  then have "getJsonObjects env jsonFilePath w = (v, w)"
    by (simp add: getJsonObjects_def)
  then show "checkRemovedServices env servicesFolderPath jsonFilePath w = (Inr (), w)"
    by (rule checkRemovedServices_not_array) (use a in blast)
qed

theorem load_failure_logged_once_not_array_silent_witness:
  "readFile env_example (str ''/repo/assets/missing.json'') = Inl (SystemError ''ENOENT'')
   \<and> checkRemovedServices env_example (str ''/repo/services'') (str ''/repo/assets/missing.json'') empty_world
       = (Inr (), \<lparr>writeFile_calls = [],
            console = [ConsoleError (str ''Error while reading JSON file:'') (SystemError ''ENOENT'')]\<rparr>)
   \<and> (\<exists>content. readFile env_broken_json (str ''/repo/assets/services.json'') = Inr content
         \<and> JSON_parse env_broken_json content = Inl SyntaxError)
   \<and> checkRemovedServices env_broken_json (str ''/repo/services'') (str ''/repo/assets/services.json'') empty_world
       = (Inr (), \<lparr>writeFile_calls = [],
            console = [ConsoleError (str ''Error while reading JSON file:'') SyntaxError]\<rparr>)
   \<and> (\<exists>content doc. readFile env_not_array (str ''/repo/assets/services.json'') = Inr content
         \<and> JSON_parse env_not_array content = Inr doc
         \<and> get_prop doc (str ''blocked_services'') = Inr (JStr (str ''none'')))
   \<and> checkRemovedServices env_not_array (str ''/repo/services'') (str ''/repo/assets/services.json'') empty_world
       = (Inr (), empty_world)"
proof -
  have r1: "readFile env_example (str ''/repo/assets/missing.json'') = Inl (SystemError ''ENOENT'')"
    by code_simp
  from r1 load_failure_logged_once_not_array_silent
    [of env_example "str ''/repo/assets/missing.json''" "SystemError ''ENOENT''"
        "str ''/repo/services''" empty_world]
  have c1: "checkRemovedServices env_example (str ''/repo/services'') (str ''/repo/assets/missing.json'') empty_world
       = (Inr (), \<lparr>writeFile_calls = [],
            console = [ConsoleError (str ''Error while reading JSON file:'') (SystemError ''ENOENT'')]\<rparr>)"
    by (simp add: empty_world_def)
  obtain content2 where r2: "readFile env_broken_json (str ''/repo/assets/services.json'') = Inr content2"
    and p2: "JSON_parse env_broken_json content2 = Inl SyntaxError"
    by (simp add: env_broken_json_def example_env_def)
  from r2 p2 load_failure_logged_once_not_array_silent
    [of env_broken_json "str ''/repo/assets/services.json''" SyntaxError "str ''/repo/services''"
        empty_world content2]
  have c2: "checkRemovedServices env_broken_json (str ''/repo/services'') (str ''/repo/assets/services.json'') empty_world
       = (Inr (), \<lparr>writeFile_calls = [],
            console = [ConsoleError (str ''Error while reading JSON file:'') SyntaxError]\<rparr>)"
    by (simp add: empty_world_def)
  obtain content3 doc3 where r3: "readFile env_not_array (str ''/repo/assets/services.json'') = Inr content3"
    and p3: "JSON_parse env_not_array content3 = Inr doc3"
    and g3: "get_prop doc3 (str ''blocked_services'') = Inr (JStr (str ''none''))"
    by (simp add: env_not_array_def example_env_def)
  from r3 p3 g3 load_failure_logged_once_not_array_silent
    [of env_not_array "str ''/repo/assets/services.json''" _ "str ''/repo/services''"
        empty_world content3 doc3 "JStr (str ''none'')"]
  have c3: "checkRemovedServices env_not_array (str ''/repo/services'') (str ''/repo/assets/services.json'') empty_world
       = (Inr (), empty_world)"
    by simp
  from r1 c1 r2 p2 c2 r3 p3 g3 c3 show ?thesis by blast
qed

text \<open>
  C6. The records resolved for the missing keys are \<open>pre @ obj # post\<close>; every record
  of \<open>pre\<close> is serialized and written, the calls being \<open>written\<close>; the step for
  \<open>obj\<close> fails with \<open>e\<close>: no record matched its key, so that \<open>obj\<close> is
  \<^verbatim>\<open>undefined\<close> and reading its id throws a TypeError, or \<^verbatim>\<open>yaml.dump\<close> throws
  \<open>e\<close>, or \<^verbatim>\<open>writeFile\<close> fails with \<open>e\<close>. Then \<open>rewriteYMLFile\<close> returns
  normally, its console has one more line, the error \<open>e\<close>, and its calls of
  \<^verbatim>\<open>writeFile\<close> are those of \<open>pre\<close>, all successful, and the failed call, if the
  failure was a write: none for \<open>post\<close>. When these keys are the diff of a run,
  \<open>checkRemovedServices\<close> returns normally too and its last console line is the
  summary, which lists the missing keys, separated by a comma and a space.
\<close>

theorem write_failure_caught_rest_abandoned:
  assumes "removedServicesObjects names recs = Inr (pre @ obj # post)"
      and "list_all2 (\<lambda>obj call. \<exists>i data. record_id obj = Some i \<and> yaml_dump env (- 1) obj = Inr data
              \<and> call = (path_join (servicesDir env @ str ''/'' @ i @ YML_FILE_EXTENSION), data, None))
            pre written"
      and "\<forall>j < length written.
             writeFile env (writeFile_calls w @ take j written)
               (fst (written ! j)) (fst (snd (written ! j))) = None"
      and "(obj = JUndefined \<and> e = TypeError \<and> failed = [])
         \<or> (\<exists>i. record_id obj = Some i \<and> yaml_dump env (- 1) obj = Inl e \<and> failed = [])
         \<or> (\<exists>i data. record_id obj = Some i \<and> yaml_dump env (- 1) obj = Inr data
               \<and> writeFile env (writeFile_calls w @ written)
                    (path_join (servicesDir env @ str ''/'' @ i @ YML_FILE_EXTENSION)) data = Some e
               \<and> failed = [(path_join (servicesDir env @ str ''/'' @ i @ YML_FILE_EXTENSION), data, Some e)])"
  shows "rewriteYMLFile env names recs w =
           (Inr (), w\<lparr>writeFile_calls := writeFile_calls w @ written @ failed,
                       console := console w @ [ConsoleError (str ''Error while rewriting file:'') e]\<rparr>)
       \<and> (getJsonObjects env jsonFilePath w = (JArr recs, w)
            \<and> getYmlFileNames env servicesFolderPath = Inr ymlFileNames
            \<and> getJsonObjectNames recs = Inr jsonObjectNames
            \<and> names = differences ymlFileNames jsonObjectNames \<longrightarrow>
          checkRemovedServices env servicesFolderPath jsonFilePath w =
            (Inr (), w\<lparr>writeFile_calls := writeFile_calls w @ written @ failed,
                        console := console w @
                          [ConsoleError (str ''Error while rewriting file:'') e,
                           ConsoleLog (str ''These services have been removed: ''
                                       @ join (str '', '') names
                                       @ str '', and were rewritten'')]\<rparr>))"
proof -
  let ?w1 = "w\<lparr>writeFile_calls := writeFile_calls w @ written\<rparr>"
  let ?w2 = "w\<lparr>writeFile_calls := writeFile_calls w @ written @ failed\<rparr>"
  have pre: "writeRemovedServices env pre w = (Inr (), ?w1)"
    using assms(2,3) by (rule writeRemovedServices_written)
  have step: "writeRemovedServices env (obj # post) ?w1 = (Inl e, ?w2)"
    using assms(4)
  proof (elim disjE conjE exE)
    assume "obj = JUndefined" "e = TypeError" "failed = []"
    then show ?thesis by simp
  next
    fix i assume "record_id obj = Some i" "yaml_dump env (- 1) obj = Inl e" "failed = []"
    then show ?thesis
      unfolding writeRemovedServices_Cons
      by (simp add: record_id_Some_iff template_value_JStr)
  next
    fix i data
    assume "record_id obj = Some i" "yaml_dump env (- 1) obj = Inr data"
      "writeFile env (writeFile_calls w @ written)
         (path_join (servicesDir env @ str ''/'' @ i @ YML_FILE_EXTENSION)) data = Some e"
      "failed = [(path_join (servicesDir env @ str ''/'' @ i @ YML_FILE_EXTENSION), data, Some e)]"
    then show ?thesis
      unfolding writeRemovedServices_Cons
      by (simp add: record_id_Some_iff template_value_JStr)
  qed
  from writeRemovedServices_append [OF pre, of "obj # post"] step
  have all: "writeRemovedServices env (pre @ obj # post) w = (Inl e, ?w2)"
    by simp
  have rw: "rewriteYMLFile env names recs w =
           (Inr (), w\<lparr>writeFile_calls := writeFile_calls w @ written @ failed,
                       console := console w @ [ConsoleError (str ''Error while rewriting file:'') e]\<rparr>)"
    by (simp add: rewriteYMLFile_resolved [OF assms(1)] all)
  have entry: "checkRemovedServices env servicesFolderPath jsonFilePath w =
            (Inr (), w\<lparr>writeFile_calls := writeFile_calls w @ written @ failed,
                        console := console w @
                          [ConsoleError (str ''Error while rewriting file:'') e,
                           ConsoleLog (str ''These services have been removed: ''
                                       @ join (str '', '') names
                                       @ str '', and were rewritten'')]\<rparr>)"
    if "getJsonObjects env jsonFilePath w = (JArr recs, w)"
      and "getYmlFileNames env servicesFolderPath = Inr ymlFileNames"
      and "getJsonObjectNames recs = Inr jsonObjectNames"
      and "names = differences ymlFileNames jsonObjectNames"
  proof -
    from assms(1) have "names \<noteq> []"
      by (auto simp: removedServicesObjects_def)
    with that(4) checkRemovedServices_reached [OF that(1-3)] rw show ?thesis
      by (simp add: summary_def)
  qed
  from rw entry show ?thesis by simp
qed

theorem write_failure_caught_rest_abandoned_witness:
  "removedServicesObjects [str ''a'', str ''b'', str ''c''] [service ''a'', service ''b'', service ''c'']
     = Inr ([service ''a''] @ service ''b'' # [service ''c''])
   \<and> record_id (service ''a'') = Some (str ''a'')
   \<and> yaml_dump env_write_fails (- 1) (service ''a'') = Inr (str ''id: a'' @ [0x0A])
   \<and> path_join (servicesDir env_write_fails @ str ''/'' @ str ''a'' @ YML_FILE_EXTENSION)
       = str ''/repo/services/a.yml''
   \<and> writeFile env_write_fails [] (str ''/repo/services/a.yml'') (str ''id: a'' @ [0x0A]) = None
   \<and> record_id (service ''b'') = Some (str ''b'')
   \<and> yaml_dump env_write_fails (- 1) (service ''b'') = Inr (str ''id: b'' @ [0x0A])
   \<and> path_join (servicesDir env_write_fails @ str ''/'' @ str ''b'' @ YML_FILE_EXTENSION)
       = str ''/repo/services/b.yml''
   \<and> writeFile env_write_fails [(str ''/repo/services/a.yml'', str ''id: a'' @ [0x0A], None)]
         (str ''/repo/services/b.yml'') (str ''id: b'' @ [0x0A]) = Some (SystemError ''EACCES'')
   \<and> getJsonObjects env_write_fails (str ''/repo/assets/services.json'') empty_world
       = (JArr [service ''a'', service ''b'', service ''c''], empty_world)
   \<and> getYmlFileNames env_write_fails (str ''/repo/services'') = Inr []
   \<and> getJsonObjectNames [service ''a'', service ''b'', service ''c''] = Inr [str ''a'', str ''b'', str ''c'']
   \<and> [str ''a'', str ''b'', str ''c''] = differences [] [str ''a'', str ''b'', str ''c'']
   \<and> rewriteYMLFile env_write_fails [str ''a'', str ''b'', str ''c'']
         [service ''a'', service ''b'', service ''c''] empty_world
       = (Inr (),
          \<lparr>writeFile_calls = [(str ''/repo/services/a.yml'', str ''id: a'' @ [0x0A], None),
                              (str ''/repo/services/b.yml'', str ''id: b'' @ [0x0A], Some (SystemError ''EACCES''))],
           console = [ConsoleError (str ''Error while rewriting file:'') (SystemError ''EACCES'')]\<rparr>)
   \<and> checkRemovedServices env_write_fails (str ''/repo/services'') (str ''/repo/assets/services.json'') empty_world
       = (Inr (),
          \<lparr>writeFile_calls = [(str ''/repo/services/a.yml'', str ''id: a'' @ [0x0A], None),
                              (str ''/repo/services/b.yml'', str ''id: b'' @ [0x0A], Some (SystemError ''EACCES''))],
           console = [ConsoleError (str ''Error while rewriting file:'') (SystemError ''EACCES''),
                      ConsoleLog (str ''These services have been removed: a, b, c, and were rewritten'')]\<rparr>)
   \<and> removedServicesObjects [str ''gone''] [service ''Example.com'', service ''other'']
       = Inr ([] @ JUndefined # [])
   \<and> rewriteYMLFile env_example [str ''gone''] [service ''Example.com'', service ''other''] empty_world
       = (Inr (),
          \<lparr>writeFile_calls = [],
           console = [ConsoleError (str ''Error while rewriting file:'') TypeError]\<rparr>)"
proof -
  have h1: "removedServicesObjects [str ''a'', str ''b'', str ''c''] [service ''a'', service ''b'', service ''c'']
     = Inr ([service ''a''] @ service ''b'' # [service ''c''])"
    by code_simp
  have ia: "record_id (service ''a'') = Some (str ''a'')" by code_simp
  have da: "yaml_dump env_write_fails (- 1) (service ''a'') = Inr (str ''id: a'' @ [0x0A])" by code_simp
  have pa: "path_join (servicesDir env_write_fails @ str ''/'' @ str ''a'' @ YML_FILE_EXTENSION)
       = str ''/repo/services/a.yml''"
    by code_simp
  have wa: "writeFile env_write_fails [] (str ''/repo/services/a.yml'') (str ''id: a'' @ [0x0A]) = None"
    by code_simp
  have ib: "record_id (service ''b'') = Some (str ''b'')" by code_simp
  have db: "yaml_dump env_write_fails (- 1) (service ''b'') = Inr (str ''id: b'' @ [0x0A])" by code_simp
  have pb: "path_join (servicesDir env_write_fails @ str ''/'' @ str ''b'' @ YML_FILE_EXTENSION)
       = str ''/repo/services/b.yml''"
    by code_simp
  have wb: "writeFile env_write_fails [(str ''/repo/services/a.yml'', str ''id: a'' @ [0x0A], None)]
         (str ''/repo/services/b.yml'') (str ''id: b'' @ [0x0A]) = Some (SystemError ''EACCES'')"
    by code_simp
  have l: "getJsonObjects env_write_fails (str ''/repo/assets/services.json'') empty_world
       = (JArr [service ''a'', service ''b'', service ''c''], empty_world)"
    by code_simp
  have y: "getYmlFileNames env_write_fails (str ''/repo/services'') = Inr []"
    by code_simp
  have n: "getJsonObjectNames [service ''a'', service ''b'', service ''c''] = Inr [str ''a'', str ''b'', str ''c'']"
    by code_simp
  have d: "[str ''a'', str ''b'', str ''c''] = differences [] [str ''a'', str ''b'', str ''c'']"
    by code_simp
  have t: "str ''These services have been removed: '' @ join (str '', '') [str ''a'', str ''b'', str ''c'']
        @ str '', and were rewritten''
      = str ''These services have been removed: a, b, c, and were rewritten''"
    by code_simp
  have t': "str ''These services have been removed: '' @ str ''a'' @ str '', '' @ str ''b'' @ str '', ''
        @ str ''c'' @ str '', and were rewritten''
      = str ''These services have been removed: a, b, c, and were rewritten''"
    by code_simp
  have e: "writeFile_calls empty_world = []" "console empty_world = []"
    by (simp_all add: empty_world_def)
  have h2: "list_all2 (\<lambda>obj call. \<exists>i data. record_id obj = Some i
              \<and> yaml_dump env_write_fails (- 1) obj = Inr data
              \<and> call = (path_join (servicesDir env_write_fails @ str ''/'' @ i @ YML_FILE_EXTENSION), data, None))
            [service ''a''] [(str ''/repo/services/a.yml'', str ''id: a'' @ [0x0A], None)]"
    using ia da pa by simp
  have h3: "\<forall>j < length [(str ''/repo/services/a.yml'', str ''id: a'' @ [0x0A], None :: js_error option)].
             writeFile env_write_fails
               (writeFile_calls empty_world @ take j [(str ''/repo/services/a.yml'', str ''id: a'' @ [0x0A], None)])
               (fst ([(str ''/repo/services/a.yml'', str ''id: a'' @ [0x0A], None :: js_error option)] ! j))
               (fst (snd ([(str ''/repo/services/a.yml'', str ''id: a'' @ [0x0A], None :: js_error option)] ! j)))
             = None"
    using wa by (simp add: e)
  have h4: "(service ''b'' = JUndefined \<and> SystemError ''EACCES'' = TypeError
            \<and> [(str ''/repo/services/b.yml'', str ''id: b'' @ [0x0A], Some (SystemError ''EACCES''))] = [])
         \<or> (\<exists>i. record_id (service ''b'') = Some i
               \<and> yaml_dump env_write_fails (- 1) (service ''b'') = Inl (SystemError ''EACCES'')
               \<and> [(str ''/repo/services/b.yml'', str ''id: b'' @ [0x0A], Some (SystemError ''EACCES''))] = [])
         \<or> (\<exists>i data. record_id (service ''b'') = Some i
               \<and> yaml_dump env_write_fails (- 1) (service ''b'') = Inr data
               \<and> writeFile env_write_fails
                    (writeFile_calls empty_world @ [(str ''/repo/services/a.yml'', str ''id: a'' @ [0x0A], None)])
                    (path_join (servicesDir env_write_fails @ str ''/'' @ i @ YML_FILE_EXTENSION)) data
                  = Some (SystemError ''EACCES'')
               \<and> [(str ''/repo/services/b.yml'', str ''id: b'' @ [0x0A], Some (SystemError ''EACCES''))]
                  = [(path_join (servicesDir env_write_fails @ str ''/'' @ i @ YML_FILE_EXTENSION), data,
                      Some (SystemError ''EACCES''))])"
    using ib db pb wb by (simp add: e)
  note c6 = write_failure_caught_rest_abandoned [OF h1 h2 h3 h4,
      of "str ''/repo/assets/services.json''" "str ''/repo/services''" "[]"
         "[str ''a'', str ''b'', str ''c'']"]
  from c6 have r: "rewriteYMLFile env_write_fails [str ''a'', str ''b'', str ''c'']
         [service ''a'', service ''b'', service ''c''] empty_world
       = (Inr (),
          \<lparr>writeFile_calls = [(str ''/repo/services/a.yml'', str ''id: a'' @ [0x0A], None),
                              (str ''/repo/services/b.yml'', str ''id: b'' @ [0x0A], Some (SystemError ''EACCES''))],
           console = [ConsoleError (str ''Error while rewriting file:'') (SystemError ''EACCES'')]\<rparr>)"
    by (simp add: empty_world_def)
  from c6 l y n d
  have c: "checkRemovedServices env_write_fails (str ''/repo/services'') (str ''/repo/assets/services.json'') empty_world
       = (Inr (),
          \<lparr>writeFile_calls = [(str ''/repo/services/a.yml'', str ''id: a'' @ [0x0A], None),
                              (str ''/repo/services/b.yml'', str ''id: b'' @ [0x0A], Some (SystemError ''EACCES''))],
           console = [ConsoleError (str ''Error while rewriting file:'') (SystemError ''EACCES''),
                      ConsoleLog (str ''These services have been removed: a, b, c, and were rewritten'')]\<rparr>)"
    by (simp add: empty_world_def t')
  have g1: "removedServicesObjects [str ''gone''] [service ''Example.com'', service ''other'']
       = Inr ([] @ JUndefined # [])"
    by code_simp
  have g2: "list_all2 (\<lambda>obj call. \<exists>i data. record_id obj = Some i
              \<and> yaml_dump env_example (- 1) obj = Inr data
              \<and> call = (path_join (servicesDir env_example @ str ''/'' @ i @ YML_FILE_EXTENSION), data, None))
            [] []"
    by simp
  have g3: "\<forall>j < length ([] :: writeFile_call list).
             writeFile env_example (writeFile_calls empty_world @ take j [])
               (fst ([] ! j)) (fst (snd ([] ! j))) = None"
    by simp
  from write_failure_caught_rest_abandoned [OF g1 g2 g3, of TypeError "[]"]
  have u: "rewriteYMLFile env_example [str ''gone''] [service ''Example.com'', service ''other''] empty_world
       = (Inr (),
          \<lparr>writeFile_calls = [],
           console = [ConsoleError (str ''Error while rewriting file:'') TypeError]\<rparr>)"
    by (simp add: empty_world_def)
  from h1 ia da pa wa ib db pb wb l y n d r c g1 u show ?thesis by blast
qed

text \<open>
  C7 says that every failed I/O operation of a run, the listing of the directory
  included, is caught inside the run and logged. The code does not do so for the
  listing: here the legacy file loads, the directory to list does not exist, and the
  error of \<^verbatim>\<open>readdir\<close> leaves \<open>checkRemovedServices\<close> as an exception, with
  nothing on the console.
\<close>

theorem listing_failure_escapes_unlogged:
  "getJsonObjects env_example (str ''/repo/assets/services.json'') empty_world
     = (JArr [service ''Example.com'', service ''other''], empty_world)
   \<and> readdir env_example (str ''/repo/missing'') = Inl (SystemError ''ENOENT'')
   \<and> checkRemovedServices env_example (str ''/repo/missing'') (str ''/repo/assets/services.json'') empty_world
       = (Inl (SystemError ''ENOENT''), \<lparr>writeFile_calls = [], console = []\<rparr>)"
  by code_simp

text \<open>
  C8 says that a run never overwrites a file the listed directory held before it:
  every path written has a normalized base name absent from the listing. The code
  does not keep to it for the empty id: here the directory beside the script is the
  one listed and holds a file \<^verbatim>\<open>.yml\<close>, whose normalized name is \<^verbatim>\<open>.yml\<close>; the
  legacy record has the empty id, whose key is the empty string; the key is missing,
  and the run writes the record to the very path of the file that was listed.
\<close>

theorem listed_file_overwritten_for_empty_id:
  "readdir env_empty_id (str ''/repo/services'') = Inr [str ''.yml'']
   \<and> servicesDir env_empty_id = str ''/repo/services''
   \<and> getYmlFileNames env_empty_id (str ''/repo/services'') = Inr [str ''.yml'']
   \<and> getJsonObjects env_empty_id (str ''/repo/assets/services.json'') empty_world
       = (JArr [service []], empty_world)
   \<and> getJsonObjectNames [service []] = Inr [[]]
   \<and> differences [str ''.yml''] [[]] = [[]]
   \<and> map fst (writeFile_calls (snd (checkRemovedServices env_empty_id (str ''/repo/services'')
        (str ''/repo/assets/services.json'') empty_world)))
       = [str ''/repo/services'' @ str ''/'' @ str ''.yml'']
   \<and> normalizeFileName (JStr (parse_name (str ''.yml''))) = Inr (str ''.yml'')"
  by code_simp

text \<open>
  C9. The normalizer is idempotent: on every string \<open>x\<close> it returns a string
  \<open>t\<close>, the lower-cased \<open>x\<close> without the characters outside \<^verbatim>\<open>[a-z0-9.]\<close>,
  and normalizing \<open>t\<close> again returns \<open>t\<close>.
\<close>

theorem normalizeFileName_idempotent:
  "\<exists>t. normalizeFileName (JStr x) = Inr t
     \<and> t = filter in_az09dot (toLowerCase x)
     \<and> normalizeFileName (JStr t) = normalizeFileName (JStr x)"
  using normalized_fixed [of "toLowerCase x"]
  by (simp add: normalizeFileName_JStr replace_specificCharacters_def)

text \<open>
  C10, as the code has it. When the legacy array is loaded, the directory is listed
  and some record has no string id, \<open>checkRemovedServices\<close> throws a TypeError;
  the world is as it was: no call of \<^verbatim>\<open>writeFile\<close>, no line on the console.
\<close>

theorem record_without_string_id_throws:
  assumes "getJsonObjects env jsonFilePath w = (JArr recs, w1)"
      and "readdir env servicesFolderPath = Inr files"
      and "r \<in> set recs" and "record_id r = None"
  shows "checkRemovedServices env servicesFolderPath jsonFilePath w = (Inl TypeError, w)"
proof -
  from assms(1) have "w1 = w" by (rule getJsonObjects_JArr)
  moreover from assms(2) obtain ymls where "getYmlFileNames env servicesFolderPath = Inr ymls"
    by (auto dest: getYmlFileNames_Inr)
  moreover from assms(3,4) have "getJsonObjectNames recs = Inl TypeError"
    by (rule getJsonObjectNames_fails)
  ultimately show ?thesis
    using assms(1) by (simp add: checkRemovedServices_def)
qed

theorem record_without_string_id_throws_witness:
  "getJsonObjects env_no_id (str ''/repo/assets/services.json'') empty_world
     = (JArr [JObj [(str ''name'', JStr (str ''x''))]], empty_world)
   \<and> readdir env_no_id (str ''/repo/services'') = Inr [str ''other.yml'']
   \<and> record_id (JObj [(str ''name'', JStr (str ''x''))]) = None
   \<and> checkRemovedServices env_no_id (str ''/repo/services'') (str ''/repo/assets/services.json'') empty_world
       = (Inl TypeError, empty_world)"
proof -
  have h1: "getJsonObjects env_no_id (str ''/repo/assets/services.json'') empty_world
     = (JArr [JObj [(str ''name'', JStr (str ''x''))]], empty_world)"
    by code_simp
  have h2: "readdir env_no_id (str ''/repo/services'') = Inr [str ''other.yml'']"
    by code_simp
  have h3: "JObj [(str ''name'', JStr (str ''x''))] \<in> set [JObj [(str ''name'', JStr (str ''x''))]]"
    by simp
  have h4: "record_id (JObj [(str ''name'', JStr (str ''x''))]) = None"
    by code_simp
  from record_without_string_id_throws [OF h1 h2 h3 h4] h1 h2 h4 show ?thesis
    by blast
qed

text \<open>
  C10 as it is stated fails: with the same legacy file and a directory that does not
  exist, the exception that leaves the run is the error of \<^verbatim>\<open>readdir\<close>, thrown
  before the ids are read, and not a TypeError.
\<close>

theorem listing_error_thrown_before_TypeError:
  "getJsonObjects env_no_id (str ''/repo/assets/services.json'') empty_world
     = (JArr [JObj [(str ''name'', JStr (str ''x''))]], empty_world)
   \<and> record_id (JObj [(str ''name'', JStr (str ''x''))]) = None
   \<and> checkRemovedServices env_no_id (str ''/repo/missing'') (str ''/repo/assets/services.json'') empty_world
       = (Inl (SystemError ''ENOENT''), empty_world)
   \<and> fst (checkRemovedServices env_no_id (str ''/repo/missing'') (str ''/repo/assets/services.json'') empty_world)
       \<noteq> Inl TypeError"
  by code_simp

end
